theory Spec2Isabelle
  imports Complex_Main "HOL-Library.AList"
begin

section \<open>Python values and strings\<close>

text \<open>
  Python strings are modelled as \<^typ>\<open>string\<close>; one \<^typ>\<open>char\<close> stands for one code
  point below 256, so the model covers the Latin-1 range of Python's \<open>str\<close>.
  The character classes below are the ones Python's \<open>re\<close> module and \<open>str\<close> methods use
  on that range.
\<close>

abbreviation nl :: char where "nl \<equiv> CHR 0x0A"
abbreviation apostrophe :: char where "apostrophe \<equiv> CHR 0x27"
abbreviation dquote :: char where "dquote \<equiv> CHR 0x22"

definition isspace :: "char \<Rightarrow> bool" where
  \<comment> \<open>\<open>\s\<close> of a \<open>str\<close> pattern and \<open>str.isspace\<close>: TAB..CR, FS..US, space, NEL, NBSP.\<close>
  "isspace c = (let n = (of_char c :: nat)
                in (9 \<le> n \<and> n \<le> 13) \<or> (28 \<le> n \<and> n \<le> 32) \<or> n = 133 \<or> n = 160)"

definition isdigit :: "char \<Rightarrow> bool" where
  \<comment> \<open>\<open>\d\<close>: the decimal digits; below 256 these are \<open>0\<close>..\<open>9\<close> only.\<close>
  "isdigit c = (let n = (of_char c :: nat) in 48 \<le> n \<and> n \<le> 57)"

definition lower_char :: "char \<Rightarrow> char" where
  "lower_char c = (let n = (of_char c :: nat)
                   in if (65 \<le> n \<and> n \<le> 90) \<or> (192 \<le> n \<and> n \<le> 214) \<or> (216 \<le> n \<and> n \<le> 222)
                      then char_of (n + 32) else c)"

definition lower :: "string \<Rightarrow> string" where
  "lower s = map lower_char s"

definition strip :: "string \<Rightarrow> string" where
  "strip s = rev (dropWhile isspace (rev (dropWhile isspace s)))"

definition replace_char :: "char \<Rightarrow> char \<Rightarrow> string \<Rightarrow> string" where
  \<comment> \<open>\<open>s.replace(a, b)\<close> for one-character \<open>a\<close> and \<open>b\<close>.\<close>
  "replace_char a b s = map (\<lambda>c. if c = a then b else c) s"

fun join :: "string \<Rightarrow> string list \<Rightarrow> string" where
  "join sep [] = []"
| "join sep [x] = x"
| "join sep (x # y # ys) = x @ sep @ join sep (y # ys)"

fun is_substr :: "string \<Rightarrow> string \<Rightarrow> bool" where
  \<comment> \<open>\<open>a in b\<close> on strings.\<close>
  "is_substr a [] = (a = [])"
| "is_substr a (c # cs) = (a = take (length a) (c # cs) \<or> is_substr a cs)"

definition slice_from :: "int \<Rightarrow> 'a list \<Rightarrow> 'a list" where
  \<comment> \<open>\<open>xs[i:]\<close>: a negative start counts from the end, and both ends are clamped.\<close>
  "slice_from i xs = (if i < 0 then drop (nat (int (length xs) + i)) xs else drop (nat i) xs)"

datatype exn =
    BackendError
  | KeyError string
  | ValueError
  | TypeError
  | AttributeError
  | JSONDecodeError
  | IllTyped string

text \<open>
  The first six are Python exceptions. \<^const>\<open>IllTyped\<close> is not one: Python would go on
  with an object whose field holds a value outside its annotation (for example a
  \<open>Session\<close> whose \<open>id\<close> is a number). The records below have no such inhabitant, and the
  model stops there with this marker.
\<close>

subsection \<open>Regular-expression searches of the routing parser\<close>

fun ci_prefix :: "string \<Rightarrow> string \<Rightarrow> string option" where
  \<comment> \<open>a literal matched under \<open>re.IGNORECASE\<close> at the current position; the rest of the text\<close>
  "ci_prefix [] s = Some s"
| "ci_prefix (p # ps) [] = None"
| "ci_prefix (p # ps) (c # cs) = (if lower_char c = lower_char p then ci_prefix ps cs else None)"

fun re_search :: "(string \<Rightarrow> string option) \<Rightarrow> string \<Rightarrow> string option" where
  \<comment> \<open>\<open>re.search\<close>: the anchored match \<open>m\<close> is tried at every position, leftmost first;
      the result is group 1\<close>
  "re_search m [] = m []"
| "re_search m (c # cs) = (case m (c # cs) of Some g \<Rightarrow> Some g | None \<Rightarrow> re_search m cs)"

definition match_agent :: "string \<Rightarrow> string option" where
  \<comment> \<open>\<open>AGENT:\s*(\S+)\<close>\<close>
  "match_agent s =
     (case ci_prefix ''AGENT:'' s of
        None \<Rightarrow> None
      | Some r \<Rightarrow> (let g = takeWhile (\<lambda>c. \<not> isspace c) (dropWhile isspace r)
                  in if g = [] then None else Some g))"

definition match_confidence :: "string \<Rightarrow> string option" where
  \<comment> \<open>\<open>CONFIDENCE:\s*([\d.]+)\<close>\<close>
  "match_confidence s =
     (case ci_prefix ''CONFIDENCE:'' s of
        None \<Rightarrow> None
      | Some r \<Rightarrow> (let g = takeWhile (\<lambda>c. isdigit c \<or> c = CHR ''.'') (dropWhile isspace r)
                  in if g = [] then None else Some g))"

primrec reason_try :: "nat \<Rightarrow> string \<Rightarrow> string option" where
  \<comment> \<open>\<open>\s*(.+?)(?:\n|$)\<close> with \<open>\s*\<close> holding \<open>j\<close> characters: the lazy group takes the
      characters up to the next newline and needs one at least; when it cannot,
      \<open>\s*\<close> gives one character back\<close>
  "reason_try 0 r =
     (case r of [] \<Rightarrow> None
      | c # cs \<Rightarrow> if c \<noteq> nl then Some (takeWhile (\<lambda>x. x \<noteq> nl) r) else None)"
| "reason_try (Suc j) r =
     (case drop (Suc j) r of
        [] \<Rightarrow> reason_try j r
      | c # cs \<Rightarrow> if c \<noteq> nl then Some (takeWhile (\<lambda>x. x \<noteq> nl) (c # cs)) else reason_try j r)"

definition match_reason :: "string \<Rightarrow> string option" where
  \<comment> \<open>\<open>REASON:\s*(.+?)(?:\n|$)\<close>\<close>
  "match_reason s =
     (case ci_prefix ''REASON:'' s of
        None \<Rightarrow> None
      | Some r \<Rightarrow> reason_try (length (takeWhile isspace r)) r)"

definition digits_value :: "string \<Rightarrow> nat" where
  "digits_value s = foldl (\<lambda>a c. 10 * a + (of_char c - 48)) 0 s"

definition py_float :: "string \<Rightarrow> exn + rat" where
  \<comment> \<open>\<open>float(s)\<close> for a string of digits and dots, which is all the capture group can hold:
      at most one dot and at least one digit, else \<open>ValueError\<close>. The value is kept as the
      exact decimal; Python rounds it to the nearest double, which keeps its order
      with 0 and 1.\<close>
  "py_float s =
     (let ip = takeWhile isdigit s; rest = dropWhile isdigit s
      in case rest of
           [] \<Rightarrow> if ip = [] then Inl ValueError else Inr (of_nat (digits_value ip))
         | c # fp \<Rightarrow>
             if c = CHR ''.'' \<and> list_all isdigit fp \<and> ip @ fp \<noteq> []
             then Inr (of_nat (digits_value (ip @ fp)) / of_nat (10 ^ length fp))
             else Inl ValueError)"

section \<open>The conductor: routing\<close>

record routing_decision =
  agent :: string
  confidence :: rat
  reasoning :: string

text \<open>
  \<open>RoutingDecision.timestamp\<close> (a reading of the wall clock taken when the record is
  built) is left out: no modelled function reads it and \<open>to_dict\<close> does not serialise it.
\<close>

record agent_profile =
  name :: string
  category :: string
  role :: string

text \<open>Of \<open>AgentProfile\<close>, the fields the conductor reads.\<close>

record conductor_config =
  conductor_model :: string
  default_agent_model_prefix :: string
  max_context_turns :: int
  routing_temperature :: rat
  response_temperature :: rat

definition default_config :: conductor_config where
  "default_config =
     \<lparr>conductor_model = ''ai-way-yollayah'', default_agent_model_prefix = ''ai-way-'',
      max_context_turns = 10, routing_temperature = 3 / 10, response_temperature = 8 / 10\<rparr>"

definition fuzzy :: "string \<Rightarrow> string \<Rightarrow> bool" where
  \<comment> \<open>\<open>agent in name or name in agent\<close>\<close>
  "fuzzy a n = (is_substr a n \<or> is_substr n a)"

definition agent_not_found :: "string \<Rightarrow> string" where
  \<comment> \<open>\<open>f"Agent '{agent}' not found, handling directly"\<close>\<close>
  "agent_not_found a = ''Agent '' @ [apostrophe] @ a @ [apostrophe] @ '' not found, handling directly''"

definition parse_agent_line :: "string \<Rightarrow> string" where
  \<comment> \<open>the block "Parse AGENT line", starting from the default \<open>"conductor"\<close>\<close>
  "parse_agent_line response =
     (case re_search match_agent response of
        Some g \<Rightarrow> lower (strip g)
      | None \<Rightarrow> ''conductor'')"

definition parse_confidence_line :: "string \<Rightarrow> rat" where
  \<comment> \<open>the block "Parse CONFIDENCE line": \<open>ValueError\<close> is caught and leaves the default\<close>
  "parse_confidence_line response =
     (case re_search match_confidence response of
        Some g \<Rightarrow> (case py_float g of
                     Inr x \<Rightarrow> max 0 (min 1 x)
                   | Inl e \<Rightarrow> 1 / 2)
      | None \<Rightarrow> 1 / 2)"

definition parse_reason_line :: "string \<Rightarrow> string" where
  \<comment> \<open>the block "Parse REASON line"\<close>
  "parse_reason_line response =
     (case re_search match_reason response of
        Some g \<Rightarrow> strip g
      | None \<Rightarrow> ''Default routing'')"

definition validate_agent ::
  "(string \<times> agent_profile) list \<Rightarrow> string \<Rightarrow> string \<Rightarrow> string \<times> string" where
  \<comment> \<open>the block "Validate agent exists"; the \<open>for\<close>/\<open>else\<close> loop is \<^const>\<open>find\<close> over the
      dictionary's keys. In the \<open>else\<close> branch \<open>agent\<close> is reassigned before the message is
      formatted, so the message names \<open>conductor\<close>.\<close>
  "validate_agent agents a r =
     (if a \<noteq> ''conductor'' \<and> a \<notin> set (map fst agents)
      then (case find (fuzzy a) (map fst agents) of
              Some n \<Rightarrow> (n, r)
            | None \<Rightarrow> (let a' = ''conductor'' in (a', agent_not_found a')))
      else (a, r))"

definition parse_routing_response ::
  "(string \<times> agent_profile) list \<Rightarrow> string \<Rightarrow> routing_decision" where
  "parse_routing_response agents response =
     (let a = parse_agent_line response;
          c = parse_confidence_line response;
          r = parse_reason_line response;
          (a', r') = validate_agent agents a r
      in \<lparr>agent = a', confidence = c, reasoning = r'\<rparr>)"

section \<open>Sessions\<close>

datatype pyval =
    PNone
  | PBool bool
  | PInt int
  | PFloat rat
  | PStr string
  | PList "pyval list"
  | PDict "(string \<times> pyval) list"

text \<open>
  The values a \<open>dict[str, Any]\<close> of a session holds and the values \<open>json.loads\<close> returns.
  A Python \<open>dict\<close> is an association list in insertion order with distinct keys;
  \<open>d[k] = v\<close> is \<^const>\<open>AList.update\<close>, \<open>del d[k]\<close> is \<^const>\<open>AList.delete\<close>.
\<close>

datatype datetime = Datetime nat nat nat nat nat nat nat

text \<open>A naive \<open>datetime\<close>: year, month, day, hour, minute, second, microsecond.\<close>

record pylib =
  str_of :: "pyval \<Rightarrow> string"
  isoformat :: "datetime \<Rightarrow> string"
  fromisoformat :: "string \<Rightarrow> datetime option"

text \<open>
  Functions of Python's library that the sources call and that are parameters here:
  \<open>str(v)\<close> as an f-string applies it to a context value, \<open>datetime.isoformat\<close>, and
  \<open>datetime.fromisoformat\<close> on a \<open>str\<close>, with \<^const>\<open>None\<close> for its \<open>ValueError\<close>.
\<close>

datatype chat_message = ChatMessage string string

text \<open>\<open>ChatMessage(role, content)\<close>.\<close>

record turn =
  user_message :: string
  assistant_response :: string
  routing :: "routing_decision option"
  tokens_used :: int
  latency_ms :: rat
  timestamp :: datetime

record session =
  session_id :: string
  created_at :: datetime
  turns :: "turn list"
  session_context :: "(string \<times> pyval) list"
  active_surface :: "string option"
  preferences :: "(string \<times> pyval) list"
  detected_mood :: string

text \<open>
  \<^const>\<open>session_id\<close> and \<^const>\<open>session_context\<close> are the fields \<open>id\<close> and \<open>context\<close> of
  \<open>Session\<close>.
\<close>

definition get_chat_history :: "session \<Rightarrow> int \<Rightarrow> chat_message list" where
  "get_chat_history s max_turns =
     (let messages = [];
          recent_turns = (if max_turns \<noteq> 0 then slice_from (- max_turns) (turns s) else turns s)
      in foldl (\<lambda>messages t.
                  (messages @ [ChatMessage ''user'' (user_message t)])
                    @ [ChatMessage ''assistant'' (assistant_response t)])
           messages recent_turns)"

definition get_context_summary :: "pylib \<Rightarrow> session \<Rightarrow> string" where
  "get_context_summary lib s =
     (let parts = [];
          parts = (if turns s \<noteq> []
                   then (let recent = slice_from (- 3) (turns s);
                             parts = parts @ [''Recent conversation:'']
                         in foldl (\<lambda>parts t.
                                     (parts @ [''  User: '' @ take 100 (user_message t) @ ''...''])
                                       @ [''  Assistant: '' @ take 100 (assistant_response t) @ ''...''])
                              parts recent)
                   else parts);
          parts = (if session_context s \<noteq> []
                   then foldl (\<lambda>parts (key, value). parts @ [''  '' @ key @ '': '' @ str_of lib value])
                          (parts @ [nl # ''Context:'']) (session_context s)
                   else parts);
          parts = (if preferences s \<noteq> []
                   then foldl (\<lambda>parts (key, value). parts @ [''  '' @ key @ '': '' @ str_of lib value])
                          (parts @ [nl # ''User preferences:'']) (preferences s)
                   else parts);
          parts = (if detected_mood s \<noteq> ''neutral''
                   then parts @ [nl # ''Detected mood: '' @ detected_mood s]
                   else parts)
      in join [nl] parts)"

definition total_tokens :: "session \<Rightarrow> int" where
  "total_tokens s = sum_list (map tokens_used (turns s))"

definition total_turns :: "session \<Rightarrow> int" where
  "total_turns s = int (length (turns s))"

subsection \<open>Serialisation\<close>

definition routing_to_dict :: "routing_decision option \<Rightarrow> pyval" where
  "routing_to_dict r =
     (case r of
        Some d \<Rightarrow> PDict [(''agent'', PStr (agent d)), (''confidence'', PFloat (confidence d)),
                         (''reasoning'', PStr (reasoning d))]
      | None \<Rightarrow> PNone)"

definition turn_to_dict :: "pylib \<Rightarrow> turn \<Rightarrow> pyval" where
  "turn_to_dict lib t =
     PDict [(''user_message'', PStr (user_message t)),
            (''assistant_response'', PStr (assistant_response t)),
            (''routing'', routing_to_dict (routing t)),
            (''tokens_used'', PInt (tokens_used t)),
            (''latency_ms'', PFloat (latency_ms t)),
            (''timestamp'', PStr (isoformat lib (timestamp t)))]"

definition to_dict :: "pylib \<Rightarrow> session \<Rightarrow> pyval" where
  "to_dict lib s =
     PDict [(''id'', PStr (session_id s)),
            (''created_at'', PStr (isoformat lib (created_at s))),
            (''turns'', PList (map (turn_to_dict lib) (turns s))),
            (''context'', PDict (session_context s)),
            (''preferences'', PDict (preferences s)),
            (''detected_mood'', PStr (detected_mood s)),
            (''active_surface'', (case active_surface s of None \<Rightarrow> PNone | Some a \<Rightarrow> PStr a))]"

definition bind_exn :: "exn + 'a \<Rightarrow> ('a \<Rightarrow> exn + 'b) \<Rightarrow> exn + 'b" where
  \<comment> \<open>sequencing: an exception of the first step ends the computation\<close>
  "bind_exn m f = (case m of Inl e \<Rightarrow> Inl e | Inr x \<Rightarrow> f x)"

definition getitem :: "pyval \<Rightarrow> string \<Rightarrow> exn + pyval" where
  \<comment> \<open>\<open>data[key]\<close> with a string key\<close>
  "getitem data key =
     (case data of
        PDict kvs \<Rightarrow> (case map_of kvs key of Some v \<Rightarrow> Inr v | None \<Rightarrow> Inl (KeyError key))
      | _ \<Rightarrow> Inl TypeError)"

definition get_default :: "pyval \<Rightarrow> string \<Rightarrow> pyval \<Rightarrow> exn + pyval" where
  \<comment> \<open>\<open>data.get(key, default)\<close>\<close>
  "get_default data key dflt =
     (case data of
        PDict kvs \<Rightarrow> (case map_of kvs key of Some v \<Rightarrow> Inr v | None \<Rightarrow> Inr dflt)
      | _ \<Rightarrow> Inl AttributeError)"

fun truthy :: "pyval \<Rightarrow> bool" where
  "truthy PNone = False"
| "truthy (PBool b) = b"
| "truthy (PInt n) = (n \<noteq> 0)"
| "truthy (PFloat x) = (x \<noteq> 0)"
| "truthy (PStr s) = (s \<noteq> [])"
| "truthy (PList xs) = (xs \<noteq> [])"
| "truthy (PDict kvs) = (kvs \<noteq> [])"

definition py_iter :: "pyval \<Rightarrow> exn + pyval list" where
  \<comment> \<open>the items a \<open>for\<close> loop over the value visits\<close>
  "py_iter v =
     (case v of
        PList xs \<Rightarrow> Inr xs
      | PDict kvs \<Rightarrow> Inr (map (\<lambda>kv. PStr (fst kv)) kvs)
      | PStr s \<Rightarrow> Inr (map (\<lambda>c. PStr [c]) s)
      | _ \<Rightarrow> Inl TypeError)"

definition py_fromisoformat :: "pylib \<Rightarrow> pyval \<Rightarrow> exn + datetime" where
  \<comment> \<open>\<open>datetime.fromisoformat(v)\<close>: \<open>TypeError\<close> unless \<open>v\<close> is a \<open>str\<close>\<close>
  "py_fromisoformat lib v =
     (case v of
        PStr s \<Rightarrow> (case fromisoformat lib s of Some d \<Rightarrow> Inr d | None \<Rightarrow> Inl ValueError)
      | _ \<Rightarrow> Inl TypeError)"

definition as_str :: "string \<Rightarrow> pyval \<Rightarrow> exn + string" where
  "as_str field v = (case v of PStr s \<Rightarrow> Inr s | _ \<Rightarrow> Inl (IllTyped field))"

definition as_opt_str :: "string \<Rightarrow> pyval \<Rightarrow> exn + string option" where
  "as_opt_str field v =
     (case v of PNone \<Rightarrow> Inr None | PStr s \<Rightarrow> Inr (Some s) | _ \<Rightarrow> Inl (IllTyped field))"

definition as_int :: "string \<Rightarrow> pyval \<Rightarrow> exn + int" where
  "as_int field v = (case v of PInt n \<Rightarrow> Inr n | _ \<Rightarrow> Inl (IllTyped field))"

definition as_float :: "string \<Rightarrow> pyval \<Rightarrow> exn + rat" where
  "as_float field v =
     (case v of PFloat x \<Rightarrow> Inr x | PInt n \<Rightarrow> Inr (of_int n) | _ \<Rightarrow> Inl (IllTyped field))"

definition as_dict :: "string \<Rightarrow> pyval \<Rightarrow> exn + (string \<times> pyval) list" where
  "as_dict field v = (case v of PDict kvs \<Rightarrow> Inr kvs | _ \<Rightarrow> Inl (IllTyped field))"

text \<open>
  The \<open>as_\<close> functions carry a value into the typed field of a record; Python stores
  the value as it is, and they are where the model stops with \<^const>\<open>IllTyped\<close>. The
  marker comes at the first such value, also where Python would go on and raise an
  exception later in the same call; the model says nothing about what the sources do with
  an input that reaches it.
\<close>

definition routing_from_dict :: "pyval \<Rightarrow> exn + routing_decision option" where
  \<comment> \<open>the \<open>routing\<close> of one turn: \<open>None\<close> unless \<open>turn_data.get("routing")\<close> is truthy\<close>
  "routing_from_dict turn_data =
     bind_exn (get_default turn_data ''routing'' PNone) (\<lambda>rv.
       if truthy rv
       then bind_exn (bind_exn (getitem turn_data ''routing'') (\<lambda>r. getitem r ''agent'')) (\<lambda>a.
            bind_exn (as_str ''agent'' a) (\<lambda>a.
            bind_exn (bind_exn (getitem turn_data ''routing'') (\<lambda>r. getitem r ''confidence'')) (\<lambda>c.
            bind_exn (as_float ''confidence'' c) (\<lambda>c.
            bind_exn (bind_exn (getitem turn_data ''routing'') (\<lambda>r. getitem r ''reasoning'')) (\<lambda>g.
            bind_exn (as_str ''reasoning'' g) (\<lambda>g.
              Inr (Some \<lparr>agent = a, confidence = c, reasoning = g\<rparr>)))))))
       else Inr None)"

definition turn_from_dict :: "pylib \<Rightarrow> pyval \<Rightarrow> exn + turn" where
  \<comment> \<open>the body of the loop over \<open>data.get("turns", [])\<close>\<close>
  "turn_from_dict lib turn_data =
     bind_exn (routing_from_dict turn_data) (\<lambda>r.
     bind_exn (getitem turn_data ''user_message'') (\<lambda>um.
     bind_exn (as_str ''user_message'' um) (\<lambda>um.
     bind_exn (getitem turn_data ''assistant_response'') (\<lambda>ar.
     bind_exn (as_str ''assistant_response'' ar) (\<lambda>ar.
     bind_exn (get_default turn_data ''tokens_used'' (PInt 0)) (\<lambda>tu.
     bind_exn (as_int ''tokens_used'' tu) (\<lambda>tu.
     bind_exn (get_default turn_data ''latency_ms'' (PFloat 0)) (\<lambda>lm.
     bind_exn (as_float ''latency_ms'' lm) (\<lambda>lm.
     bind_exn (bind_exn (getitem turn_data ''timestamp'') (py_fromisoformat lib)) (\<lambda>ts.
       Inr \<lparr>user_message = um, assistant_response = ar, routing = r, tokens_used = tu,
            latency_ms = lm, timestamp = ts\<rparr>))))))))))"

fun turns_from_dict :: "pylib \<Rightarrow> pyval list \<Rightarrow> session \<Rightarrow> exn + session" where
  \<comment> \<open>the loop: each turn is appended to \<open>session.turns\<close>\<close>
  "turns_from_dict lib [] s = Inr s"
| "turns_from_dict lib (turn_data # rest) s =
     bind_exn (turn_from_dict lib turn_data) (\<lambda>t.
       turns_from_dict lib rest (s\<lparr>turns := turns s @ [t]\<rparr>))"

definition from_dict :: "pylib \<Rightarrow> pyval \<Rightarrow> exn + session" where
  "from_dict lib data =
     bind_exn (getitem data ''id'') (\<lambda>i.
     bind_exn (as_str ''id'' i) (\<lambda>i.
     bind_exn (bind_exn (getitem data ''created_at'') (py_fromisoformat lib)) (\<lambda>ca.
     bind_exn (get_default data ''context'' (PDict [])) (\<lambda>cx.
     bind_exn (as_dict ''context'' cx) (\<lambda>cx.
     bind_exn (get_default data ''preferences'' (PDict [])) (\<lambda>pf.
     bind_exn (as_dict ''preferences'' pf) (\<lambda>pf.
     bind_exn (get_default data ''detected_mood'' (PStr ''neutral'')) (\<lambda>dm.
     bind_exn (as_str ''detected_mood'' dm) (\<lambda>dm.
     bind_exn (get_default data ''active_surface'' PNone) (\<lambda>sf.
     bind_exn (as_opt_str ''active_surface'' sf) (\<lambda>sf.
     bind_exn (bind_exn (get_default data ''turns'' (PList [])) py_iter) (\<lambda>tds.
       turns_from_dict lib tds
         \<lparr>session_id = i, created_at = ca, turns = [], session_context = cx, active_surface = sf,
          preferences = pf, detected_mood = dm\<rparr>))))))))))))"

section \<open>The session manager\<close>

datatype file_content = NotJson | Json pyval

text \<open>
  A file on disk is represented by what \<open>json.loads\<close> makes of its text: \<^const>\<open>NotJson\<close>
  when it raises \<open>JSONDecodeError\<close>, else the decoded value. \<open>json.dumps\<close> writes a text
  that decodes to the value it was given. A disk maps a path to its file, and writing
  to it succeeds.
\<close>

type_synonym disk = "string \<Rightarrow> file_content option"

record session_manager =
  sessions :: "(string \<times> session) list"
  persist_path :: "string option"

definition get_session :: "session_manager \<Rightarrow> string \<Rightarrow> session option" where
  "get_session m sid = map_of (sessions m) sid"

definition list_sessions :: "session_manager \<Rightarrow> session list" where
  "list_sessions m = map snd (sessions m)"

definition save_sessions :: "pylib \<Rightarrow> session_manager \<Rightarrow> disk \<Rightarrow> disk" where
  "save_sessions lib m d =
     (case persist_path m of
        None \<Rightarrow> d
      | Some p \<Rightarrow>
          (let data = map (\<lambda>(sid, s). (sid, to_dict lib s)) (sessions m)
           in d(p := Some (Json (PDict data)))))"

definition persist :: "pylib \<Rightarrow> session_manager \<Rightarrow> disk \<Rightarrow> disk" where
  "persist lib m d = (if persist_path m \<noteq> None then save_sessions lib m d else d)"

definition delete_session ::
  "pylib \<Rightarrow> session_manager \<Rightarrow> disk \<Rightarrow> string \<Rightarrow> bool \<times> session_manager \<times> disk" where
  "delete_session lib m d sid =
     (if sid \<in> set (map fst (sessions m))
      then (let m' = m\<lparr>sessions := AList.delete sid (sessions m)\<rparr>;
                d' = (if persist_path m' \<noteq> None then save_sessions lib m' d else d)
            in (True, m', d'))
      else (False, m, d))"

definition py_items :: "pyval \<Rightarrow> exn + (string \<times> pyval) list" where
  \<comment> \<open>\<open>data.items()\<close>\<close>
  "py_items data = (case data of PDict kvs \<Rightarrow> Inr kvs | _ \<Rightarrow> Inl AttributeError)"

fun load_items ::
  "pylib \<Rightarrow> (string \<times> pyval) list \<Rightarrow> session_manager \<Rightarrow> exn option \<times> session_manager" where
  \<comment> \<open>the loop of \<open>_load_sessions\<close>: the exception that ends it, if any, and the manager
      with the sessions stored before it\<close>
  "load_items lib [] m = (None, m)"
| "load_items lib ((sid, session_data) # rest) m =
     (case from_dict lib session_data of
        Inl e \<Rightarrow> (Some e, m)
      | Inr s \<Rightarrow> load_items lib rest (m\<lparr>sessions := AList.update sid s (sessions m)\<rparr>))"

definition caught :: "exn \<Rightarrow> bool" where
  \<comment> \<open>\<open>except (json.JSONDecodeError, KeyError)\<close>\<close>
  "caught e = (case e of JSONDecodeError \<Rightarrow> True | KeyError k \<Rightarrow> True | _ \<Rightarrow> False)"

definition load_sessions :: "pylib \<Rightarrow> disk \<Rightarrow> session_manager \<Rightarrow> exn + session_manager" where
  \<comment> \<open>\<^const>\<open>Inr\<close>: the call returns, after the warning when an exception was caught;
      \<^const>\<open>Inl\<close>: the exception leaves the call\<close>
  "load_sessions lib d m =
     (case persist_path m of
        None \<Rightarrow> Inr m
      | Some p \<Rightarrow>
          (case d p of
             None \<Rightarrow> Inr m
           | Some f \<Rightarrow>
               (let (x, m') =
                      (case f of
                         NotJson \<Rightarrow> (Some JSONDecodeError, m)
                       | Json data \<Rightarrow>
                           (case py_items data of
                              Inl e \<Rightarrow> (Some e, m)
                            | Inr kvs \<Rightarrow> load_items lib kvs m))
                in case x of
                     None \<Rightarrow> Inr m'
                   | Some e \<Rightarrow> if caught e then Inr m' else Inl e)))"

definition SessionManager :: "pylib \<Rightarrow> disk \<Rightarrow> string option \<Rightarrow> exn + session_manager" where
  \<comment> \<open>\<open>SessionManager.__init__\<close>\<close>
  "SessionManager lib d path =
     (let m = \<lparr>sessions = [], persist_path = path\<rparr>
      in case path of
           None \<Rightarrow> Inr m
         | Some p \<Rightarrow> if d p \<noteq> None then load_sessions lib d m else Inr m)"

section \<open>The conductor: responding\<close>

datatype call =
    Generate string string rat
  | Chat string "chat_message list" rat

text \<open>
  A call of the Ollama client: \<open>generate(model, prompt, temperature)\<close> or
  \<open>chat(model, messages, temperature)\<close>. The backend answers a call, given the calls
  made before it, with the text of the response, or with \<^const>\<open>None\<close> when the client
  raises.
\<close>

type_synonym backend = "call list \<Rightarrow> call \<Rightarrow> string option"

record world =
  the_session :: session
  calls :: "call list"
  route_calls :: nat

text \<open>
  What a call of the conductor can read and change: the \<open>Session\<close> object it is
  handed, the calls received by the backend so far, and the number of times \<open>route\<close>
  was entered (the counter a test attaches to it).
\<close>

record conductor =
  agents :: "(string \<times> agent_profile) list"
  config :: conductor_config
  agent_catalog :: string

record conductor_response =
  message :: string
  response_routing :: "routing_decision option"
  response_tokens_used :: int
  specialist_response :: "string option"

text \<open>
  \<open>ConductorResponse\<close>; \<^const>\<open>response_routing\<close> and \<^const>\<open>response_tokens_used\<close> are its
  fields \<open>routing\<close> and \<open>tokens_used\<close>. Its \<open>latency_ms\<close>, a difference of two readings of
  the wall clock, is left out.
\<close>

definition build_agent_catalog :: "(string \<times> agent_profile) list \<Rightarrow> string" where
  "build_agent_catalog ags =
     join [nl]
       (foldl (\<lambda>lines (n, a).
                 (let r = (if length (role a) > 150 then take 150 (role a) @ ''...'' else role a)
                  in lines @ [''- '' @ n @ '' ('' @ category a @ ''): '' @ r]))
          [] ags)"

definition Conductor :: "agent_profile list \<Rightarrow> conductor_config option \<Rightarrow> conductor" where
  \<comment> \<open>\<open>Conductor.__init__\<close>\<close>
  "Conductor profiles cfg =
     (let ags = foldl (\<lambda>d a. AList.update (name a) a d) [] profiles
      in \<lparr>agents = ags,
          config = (case cfg of Some c \<Rightarrow> c | None \<Rightarrow> default_config),
          agent_catalog = build_agent_catalog ags\<rparr>)"

definition generate :: "backend \<Rightarrow> string \<Rightarrow> string \<Rightarrow> rat \<Rightarrow> world \<Rightarrow> (exn + string) \<times> world" where
  "generate be model prompt temperature w =
     (let c = Generate model prompt temperature
      in ((case be (calls w) c of Some text \<Rightarrow> Inr text | None \<Rightarrow> Inl BackendError),
          w\<lparr>calls := calls w @ [c]\<rparr>))"

definition chat :: "backend \<Rightarrow> string \<Rightarrow> chat_message list \<Rightarrow> rat \<Rightarrow> world \<Rightarrow> (exn + string) \<times> world" where
  "chat be model messages temperature w =
     (let c = Chat model messages temperature
      in ((case be (calls w) c of Some text \<Rightarrow> Inr text | None \<Rightarrow> Inl BackendError),
          w\<lparr>calls := calls w @ [c]\<rparr>))"

definition routing_prompt :: "string \<Rightarrow> string \<Rightarrow> string \<Rightarrow> string" where
  "routing_prompt catalog query ctx =
     ''You are the routing component of Yollayah.'' @ [nl] @
     [nl] @
     ''Analyze this query and decide which specialist agent should handle it.'' @ [nl] @
     ''If no specialist is needed (general conversation, simple questions), respond with ''
       @ [dquote] @ ''conductor'' @ [dquote] @ ''.'' @ [nl] @
     [nl] @
     ''Available specialists:'' @ [nl] @
     catalog @ [nl] @
     [nl] @
     ''Query: '' @ query @ [nl] @
     [nl] @
     ''Context from conversation:'' @ [nl] @
     ctx @ [nl] @
     [nl] @
     ''Respond in this exact format:'' @ [nl] @
     ''AGENT: <agent-name>'' @ [nl] @
     ''CONFIDENCE: <0.0-1.0>'' @ [nl] @
     ''REASON: <brief explanation>'' @ [nl]"

definition route ::
  "conductor \<Rightarrow> backend \<Rightarrow> pylib \<Rightarrow> string \<Rightarrow> world \<Rightarrow> (exn + routing_decision) \<times> world" where
  "route C be lib query w0 =
     (let w = w0\<lparr>route_calls := Suc (route_calls w0)\<rparr>;
          session = the_session w;
          prompt = routing_prompt (agent_catalog C) query
                     (if turns session \<noteq> [] then get_context_summary lib session
                      else ''No prior context.'')
      in case generate be (conductor_model (config C)) prompt (routing_temperature (config C)) w of
           (Inl e, w') \<Rightarrow> (Inl e, w')
         | (Inr response, w') \<Rightarrow> (Inr (parse_routing_response (agents C) response), w'))"

definition handoff_prompt :: "string \<Rightarrow> string \<Rightarrow> string \<Rightarrow> string" where
  "handoff_prompt ctx query agent_name =
     ''Context from conversation:'' @ [nl] @
     ctx @ [nl] @
     [nl] @
     ''User query: '' @ query @ [nl] @
     [nl] @
     ''Please respond as the '' @ replace_char CHR ''-'' CHR '' '' agent_name @ '' specialist.'' @ [nl] @
     ''Focus on your area of expertise. Be helpful and specific.'' @ [nl]"

definition handoff ::
  "conductor \<Rightarrow> backend \<Rightarrow> pylib \<Rightarrow> string \<Rightarrow> string \<Rightarrow> world \<Rightarrow> (exn + string) \<times> world" where
  "handoff C be lib query agent_name w =
     (case map_of (agents C) agent_name of
        None \<Rightarrow> (Inr (''Agent '' @ agent_name @ '' not found.''), w)
      | Some a \<Rightarrow>
          (let ctx = get_context_summary lib (the_session w);
               prompt = handoff_prompt ctx query agent_name;
               model_name = default_agent_model_prefix (config C) @ agent_name
           in generate be model_name prompt (response_temperature (config C)) w))"

definition respond_directly ::
  "conductor \<Rightarrow> backend \<Rightarrow> string \<Rightarrow> world \<Rightarrow> (exn + string) \<times> world" where
  "respond_directly C be query w =
     (let messages = get_chat_history (the_session w) (max_context_turns (config C));
          messages = messages @ [ChatMessage ''user'' query]
      in chat be (conductor_model (config C)) messages (response_temperature (config C)) w)"

definition presentation_prompt :: "string \<Rightarrow> string \<Rightarrow> string \<Rightarrow> string" where
  "presentation_prompt query agent_name specialist =
     ''You are Yollayah presenting information from a specialist.'' @ [nl] @
     [nl] @
     ''The '' @ replace_char CHR ''-'' CHR '' '' agent_name
       @ '' just provided this response to the user'' @ [apostrophe] @ ''s question:'' @ [nl] @
     [nl] @
     ''SPECIALIST RESPONSE:'' @ [nl] @
     specialist @ [nl] @
     [nl] @
     ''USER'' @ [apostrophe] @ ''S ORIGINAL QUESTION:'' @ [nl] @
     query @ [nl] @
     [nl] @
     ''Present this information in your own voice (warm, real, playfully opinionated).'' @ [nl] @
     ''You can:'' @ [nl] @
     ''- Summarize if the response is very technical'' @ [nl] @
     ''- Add encouraging comments'' @ [nl] @
     ''- Ask if they need clarification'' @ [nl] @
     ''- Celebrate if they'' @ [apostrophe] @ ''re making progress'' @ [nl] @
     [nl] @
     ''Keep your personality but make sure the specialist'' @ [apostrophe]
       @ ''s key information comes through.'' @ [nl] @
     ''Don'' @ [apostrophe] @ ''t say '' @ [dquote] @ ''the specialist said'' @ [dquote]
       @ '' - just present it naturally as if you'' @ [apostrophe] @ ''re explaining it.'' @ [nl]"

definition present_specialist_response ::
  "conductor \<Rightarrow> backend \<Rightarrow> string \<Rightarrow> string \<Rightarrow> string \<Rightarrow> world \<Rightarrow> (exn + string) \<times> world" where
  "present_specialist_response C be query agent_name specialist w =
     generate be (conductor_model (config C)) (presentation_prompt query agent_name specialist)
       (response_temperature (config C)) w"

definition respond ::
  "conductor \<Rightarrow> backend \<Rightarrow> pylib \<Rightarrow> string \<Rightarrow> string option \<Rightarrow> world
     \<Rightarrow> (exn + conductor_response) \<times> world" where
  \<comment> \<open>\<open>if force_agent\<close> holds for a string that is not empty\<close>
  "respond C be lib query force_agent w =
     (let (r, w1) =
            (case force_agent of
               None \<Rightarrow> route C be lib query w
             | Some fa \<Rightarrow>
                 if fa \<noteq> []
                 then (Inr \<lparr>agent = fa, confidence = 1, reasoning = ''Agent forced by request''\<rparr>, w)
                 else route C be lib query w)
      in case r of
           Inl e \<Rightarrow> (Inl e, w1)
         | Inr rd \<Rightarrow>
             if agent rd = ''conductor''
             then (case respond_directly C be query w1 of
                     (Inl e, w2) \<Rightarrow> (Inl e, w2)
                   | (Inr response_text, w2) \<Rightarrow>
                       (Inr \<lparr>message = response_text, response_routing = Some rd,
                             response_tokens_used = 0, specialist_response = None\<rparr>, w2))
             else (case handoff C be lib query (agent rd) w1 of
                     (Inl e, w2) \<Rightarrow> (Inl e, w2)
                   | (Inr specialist, w2) \<Rightarrow>
                       (case present_specialist_response C be query (agent rd) specialist w2 of
                          (Inl e, w3) \<Rightarrow> (Inl e, w3)
                        | (Inr response_text, w3) \<Rightarrow>
                            (Inr \<lparr>message = response_text, response_routing = Some rd,
                                  response_tokens_used = 0,
                                  specialist_response = Some specialist\<rparr>, w3))))"

section \<open>Reference definitions in the words of the specification\<close>

text \<open>
  These follow the specification's sentences, not the sources; the theorems below compare
  them with the functions translated from the sources.
\<close>

definition spec_last :: "nat \<Rightarrow> 'a list \<Rightarrow> 'a list" where
  \<comment> \<open>the last \<open>k\<close> elements, oldest first\<close>
  "spec_last k xs = drop (length xs - k) xs"

definition spec_turn_messages :: "turn \<Rightarrow> chat_message list" where
  \<comment> \<open>each turn contributes one user message, then one assistant message\<close>
  "spec_turn_messages t =
     [ChatMessage ''user'' (user_message t), ChatMessage ''assistant'' (assistant_response t)]"

definition spec_truncate :: "string \<Rightarrow> string" where
  \<comment> \<open>truncated to 100 characters with an ellipsis marker\<close>
  "spec_truncate x = take 100 x @ ''...''"

definition spec_turn_section :: "session \<Rightarrow> string list" where
  "spec_turn_section s =
     (if turns s = [] then []
      else ''Recent conversation:''
             # concat (map (\<lambda>t. [''  User: '' @ spec_truncate (user_message t),
                                 ''  Assistant: '' @ spec_truncate (assistant_response t)])
                         (spec_last 3 (turns s))))"

definition spec_pairs_section :: "string \<Rightarrow> pylib \<Rightarrow> (string \<times> pyval) list \<Rightarrow> string list" where
  \<comment> \<open>a heading and the key/value pairs in insertion order; nothing when there is no pair\<close>
  "spec_pairs_section heading lib kvs =
     (if kvs = [] then []
      else (nl # heading) # map (\<lambda>kv. ''  '' @ fst kv @ '': '' @ str_of lib (snd kv)) kvs)"

definition spec_mood_section :: "session \<Rightarrow> string list" where
  "spec_mood_section s =
     (if detected_mood s = ''neutral'' then []
      else [nl # ''Detected mood: '' @ detected_mood s])"

definition spec_summary :: "pylib \<Rightarrow> session \<Rightarrow> string" where
  \<comment> \<open>the four sections in their fixed order, one line each, joined by newlines\<close>
  "spec_summary lib s =
     join [nl]
       (spec_turn_section s
        @ spec_pairs_section ''Context:'' lib (session_context s)
        @ spec_pairs_section ''User preferences:'' lib (preferences s)
        @ spec_mood_section s)"

definition timestamps_roundtrip :: "pylib \<Rightarrow> session \<Rightarrow> bool" where
  \<comment> \<open>\<open>datetime.fromisoformat\<close> inverts \<open>datetime.isoformat\<close> on the timestamps of the session\<close>
  "timestamps_roundtrip lib s =
     (fromisoformat lib (isoformat lib (created_at s)) = Some (created_at s)
      \<and> list_all (\<lambda>t. fromisoformat lib (isoformat lib (timestamp t)) = Some (timestamp t))
            (turns s))"

definition forced :: "string option \<Rightarrow> bool" where
  \<comment> \<open>a forced handler is supplied: \<open>force_agent\<close> is a string that is not empty\<close>
  "forced fa = (case fa of Some a \<Rightarrow> a \<noteq> [] | None \<Rightarrow> False)"

definition routing_call :: "conductor \<Rightarrow> pylib \<Rightarrow> string \<Rightarrow> session \<Rightarrow> call" where
  \<comment> \<open>the routing completion: the router model at the routing temperature\<close>
  "routing_call C lib query s =
     Generate (conductor_model (config C))
       (routing_prompt (agent_catalog C) query
          (if turns s \<noteq> [] then get_context_summary lib s else ''No prior context.''))
       (routing_temperature (config C))"

definition handoff_call :: "conductor \<Rightarrow> pylib \<Rightarrow> string \<Rightarrow> string \<Rightarrow> session \<Rightarrow> call" where
  \<comment> \<open>the specialist handoff completion: the specialist's model, the context summary and
      the query\<close>
  "handoff_call C lib query a s =
     Generate (default_agent_model_prefix (config C) @ a)
       (handoff_prompt (get_context_summary lib s) query a)
       (response_temperature (config C))"

definition presentation_call :: "conductor \<Rightarrow> string \<Rightarrow> string \<Rightarrow> string \<Rightarrow> call" where
  \<comment> \<open>the persona presentation completion: the persona's model, the specialist's raw text
      and the query\<close>
  "presentation_call C query a specialist =
     Generate (conductor_model (config C)) (presentation_prompt query a specialist)
       (response_temperature (config C))"

definition is_routing_call :: "call \<Rightarrow> bool" where
  \<comment> \<open>a completion whose prompt opens as the routing prompt does\<close>
  "is_routing_call c =
     (case c of
        Generate m p t \<Rightarrow> take 42 p = ''You are the routing component of Yollayah.''
      | Chat m ms t \<Rightarrow> False)"

section \<open>Example values\<close>

definition example_profiles :: "agent_profile list" where
  "example_profiles =
     [\<lparr>name = ''ethical-hacker'', category = ''security'', role = ''Reviews code for security issues''\<rparr>,
      \<lparr>name = ''backend-engineer'', category = ''engineering'', role = ''Designs APIs and services''\<rparr>]"

definition example_conductor :: conductor where
  "example_conductor = Conductor example_profiles None"

definition example_reply :: string where
  "example_reply =
     ''AGENT: hacker'' @ [nl] @ ''CONFIDENCE: 0.92'' @ [nl] @ ''REASON: Query about security review''"

definition example_time :: datetime where
  "example_time = Datetime 2024 1 15 10 30 0 0"

definition example_lib :: pylib where
  \<comment> \<open>the library on the values the examples use\<close>
  "example_lib =
     \<lparr>str_of = (\<lambda>v. case v of PStr x \<Rightarrow> x | _ \<Rightarrow> ''None''),
      isoformat = (\<lambda>d. if d = example_time then ''2024-01-15T10:30:00'' else ''0001-01-01T00:00:00''),
      fromisoformat = (\<lambda>x. if x = ''2024-01-15T10:30:00'' then Some example_time
                            else if x = ''0001-01-01T00:00:00'' then Some (Datetime 1 1 1 0 0 0 0)
                            else None)\<rparr>"

definition example_turn :: "string \<Rightarrow> string \<Rightarrow> int \<Rightarrow> turn" where
  "example_turn u a n =
     \<lparr>user_message = u, assistant_response = a,
      routing = Some \<lparr>agent = ''ethical-hacker'', confidence = 23 / 25, reasoning = ''security''\<rparr>,
      tokens_used = n, latency_ms = 987, timestamp = example_time\<rparr>"

definition fresh_session :: session where
  \<comment> \<open>\<open>Session()\<close> for one generated id and one clock reading\<close>
  "fresh_session =
     \<lparr>session_id = ''1a2b3c4d'', created_at = example_time, turns = [], session_context = [],
      active_surface = None, preferences = [], detected_mood = ''neutral''\<rparr>"

definition example_session :: session where
  "example_session =
     fresh_session
       \<lparr>turns := [example_turn ''one'' ''first'' 150, example_turn ''two'' ''second'' 200,
                  example_turn ''three'' ''third'' 50],
        session_context := [(''code_language'', PStr ''Python''), (''focus_area'', PStr ''security'')]\<rparr>"

definition example_backend :: backend where
  \<comment> \<open>a backend that answers every call: the routing call with \<^const>\<open>example_reply\<close>, the
      other calls with a text that tells them apart\<close>
  "example_backend history c =
     Some (case c of
             Generate m p t \<Rightarrow>
               (if is_routing_call c then example_reply
                else if m = ''ai-way-yollayah'' then ''presented by yollayah''
                else ''raw specialist text'')
           | Chat m ms t \<Rightarrow> ''direct answer'')"

definition example_world :: world where
  "example_world = \<lparr>the_session = example_session, calls = [], route_calls = 0\<rparr>"

definition example_manager :: session_manager where
  "example_manager =
     \<lparr>sessions = [(''1a2b3c4d'', example_session), (''5e6f7a8b'', fresh_session\<lparr>session_id := ''5e6f7a8b''\<rparr>)],
      persist_path = Some ''sessions.json''\<rparr>"

definition empty_disk :: disk where
  "empty_disk = (\<lambda>p. None)"

definition snapshot_disk :: "file_content \<Rightarrow> disk" where
  \<comment> \<open>a disk whose only file is \<open>sessions.json\<close>\<close>
  "snapshot_disk f = (\<lambda>p. if p = ''sessions.json'' then Some f else None)"

definition example_query :: string where
  "example_query = ''Is this login code safe?''"

section \<open>Properties of the routing parser\<close>

text \<open>\<^const>\<open>is_substr\<close> is containment as a contiguous substring.\<close>

lemma is_substr_iff: "is_substr a b \<longleftrightarrow> (\<exists>u v. b = u @ a @ v)"
proof (induction b)
  case Nil
  then show ?case by auto
next
  case (Cons c cs)
  have "(\<exists>u v. c # cs = u @ a @ v) \<longleftrightarrow> (\<exists>v. c # cs = a @ v) \<or> (\<exists>u v. cs = u @ a @ v)"
  proof
    assume "\<exists>u v. c # cs = u @ a @ v"
    then obtain u v where uv: "c # cs = u @ a @ v" by blast
    show "(\<exists>v. c # cs = a @ v) \<or> (\<exists>u v. cs = u @ a @ v)"
    proof (cases u)
      case Nil
      with uv show ?thesis by auto
    next
      case (Cons x u')
      with uv have "cs = u' @ a @ v" by simp
      then show ?thesis by blast
    qed
  next
    assume "(\<exists>v. c # cs = a @ v) \<or> (\<exists>u v. cs = u @ a @ v)"
    then show "\<exists>u v. c # cs = u @ a @ v"
    proof
      assume "\<exists>v. c # cs = a @ v"
      then obtain v where "c # cs = [] @ a @ v" by auto
      then show ?thesis by blast
    next
      assume "\<exists>u v. cs = u @ a @ v"
      then obtain u v where "c # cs = (c # u) @ a @ v" by auto
      then show ?thesis by blast
    qed
  qed
  moreover have "(\<exists>v. c # cs = a @ v) \<longleftrightarrow> a = take (length a) (c # cs)"
    by (metis append_eq_conv_conj append_take_drop_id)
  ultimately show ?case using Cons.IH by simp
qed

lemma ci_prefix_lower: "ci_prefix p s = Some r \<Longrightarrow> take (length p) (lower s) = lower p"
  by (induction p s rule: ci_prefix.induct) (auto simp: lower_def split: if_splits)

lemma ci_prefix_is_substr: "ci_prefix p s = Some r \<Longrightarrow> is_substr (lower p) (lower s)"
  using ci_prefix_lower[of p s r] by (cases "lower s") (auto simp: lower_def)

lemma ci_prefix_None: "\<not> is_substr (lower p) (lower s) \<Longrightarrow> ci_prefix p s = None"
  using ci_prefix_is_substr[of p s] by (cases "ci_prefix p s") auto

lemma re_search_None:
  assumes "\<And>t. ci_prefix p t = None \<Longrightarrow> m t = None"
  shows "\<not> is_substr (lower p) (lower s) \<Longrightarrow> re_search m s = None"
proof (induction s)
  case Nil
  then have "m [] = None" by (intro assms ci_prefix_None)
  then show ?case by simp
next
  case (Cons c cs)
  then have "m (c # cs) = None" by (intro assms ci_prefix_None)
  moreover have "\<not> is_substr (lower p) (lower cs)"
    using Cons.prems by (simp add: lower_def)
  ultimately show ?case using Cons.IH by simp
qed

lemma no_agent_tag: "\<not> is_substr ''agent:'' (lower s) \<Longrightarrow> re_search match_agent s = None"
proof -
  have l: "lower ''AGENT:'' = ''agent:''" by code_simp
  assume "\<not> is_substr ''agent:'' (lower s)"
  moreover have "\<And>t. ci_prefix ''AGENT:'' t = None \<Longrightarrow> match_agent t = None"
    by (simp add: match_agent_def)
  ultimately show ?thesis
    using re_search_None[of "''AGENT:''" match_agent s] l by metis
qed

lemma no_confidence_tag:
  "\<not> is_substr ''confidence:'' (lower s) \<Longrightarrow> re_search match_confidence s = None"
proof -
  have l: "lower ''CONFIDENCE:'' = ''confidence:''" by code_simp
  assume "\<not> is_substr ''confidence:'' (lower s)"
  moreover have "\<And>t. ci_prefix ''CONFIDENCE:'' t = None \<Longrightarrow> match_confidence t = None"
    by (simp add: match_confidence_def)
  ultimately show ?thesis
    using re_search_None[of "''CONFIDENCE:''" match_confidence s] l by metis
qed

lemma no_reason_tag: "\<not> is_substr ''reason:'' (lower s) \<Longrightarrow> re_search match_reason s = None"
proof -
  have l: "lower ''REASON:'' = ''reason:''" by code_simp
  assume "\<not> is_substr ''reason:'' (lower s)"
  moreover have "\<And>t. ci_prefix ''REASON:'' t = None \<Longrightarrow> match_reason t = None"
    by (simp add: match_reason_def)
  ultimately show ?thesis
    using re_search_None[of "''REASON:''" match_reason s] l by metis
qed

lemma parse_confidence_line_range:
  "0 \<le> parse_confidence_line s \<and> parse_confidence_line s \<le> 1"
  by (auto simp: parse_confidence_line_def split: option.splits sum.splits)

lemma find_first:
  "P n \<Longrightarrow> \<forall>m\<in>set pre. \<not> P m \<Longrightarrow> find P (pre @ n # post) = Some n"
  by (induction pre) auto

lemma find_none: "\<forall>m\<in>set xs. \<not> P m \<Longrightarrow> find P xs = None"
  by (induction xs) auto


lemma example_agents: "agents example_conductor =
   [(''ethical-hacker'', \<lparr>name = ''ethical-hacker'', category = ''security'', role = ''Reviews code for security issues''\<rparr>),
    (''backend-engineer'', \<lparr>name = ''backend-engineer'', category = ''engineering'', role = ''Designs APIs and services''\<rparr>)]"
  by (simp add: example_conductor_def Conductor_def example_profiles_def Let_def)

lemma validate_agent_cases:
  "parse_routing_response ags reply =
     \<lparr>agent = fst (validate_agent ags (parse_agent_line reply) (parse_reason_line reply)),
      confidence = parse_confidence_line reply,
      reasoning = snd (validate_agent ags (parse_agent_line reply) (parse_reason_line reply))\<rparr>"
  by (simp add: parse_routing_response_def Let_def split: prod.splits)

text \<open>
  C1 (as amended). \<open>_parse_routing_response\<close> is a total function: for every reply and
  catalog it returns a routing decision. When the \<open>AGENT\<close> pattern finds no match the
  handler is \<open>conductor\<close>; when the \<open>CONFIDENCE\<close> pattern finds no match the confidence is
  0.5; a matched confidence is clamped into the interval from 0 to 1 when \<open>float\<close> accepts it
  and is 0.5 when \<open>float\<close> raises \<open>ValueError\<close>; the confidence is always between 0 and 1.
  When the \<open>REASON\<close> pattern finds no match the reasoning is \<open>Default routing\<close>, with a
  capital D, unless the handler validation found no catalog entry for the extracted handler,
  in which case it is the not-found message. A reply that does not contain a tag, in any
  letter case, has no match for that tag's pattern, and the empty reply yields the three
  defaults.
\<close>

theorem parse_routing_response_defaults:
  "(re_search match_agent reply = None \<longrightarrow> agent (parse_routing_response ags reply) = ''conductor'')
   \<and> (re_search match_confidence reply = None \<longrightarrow>
        confidence (parse_routing_response ags reply) = 1 / 2)
   \<and> (\<forall>g. re_search match_confidence reply = Some g \<longrightarrow>
        confidence (parse_routing_response ags reply) =
          (case py_float g of Inr x \<Rightarrow> max 0 (min 1 x) | Inl e \<Rightarrow> 1 / 2))
   \<and> 0 \<le> confidence (parse_routing_response ags reply)
   \<and> confidence (parse_routing_response ags reply) \<le> 1
   \<and> (re_search match_reason reply = None \<longrightarrow>
        reasoning (parse_routing_response ags reply) =
          (if parse_agent_line reply \<noteq> ''conductor''
              \<and> parse_agent_line reply \<notin> set (map fst ags)
              \<and> find (fuzzy (parse_agent_line reply)) (map fst ags) = None
           then agent_not_found ''conductor''
           else ''Default routing''))
   \<and> (\<not> is_substr ''agent:'' (lower reply) \<longrightarrow> re_search match_agent reply = None)
   \<and> (\<not> is_substr ''confidence:'' (lower reply) \<longrightarrow> re_search match_confidence reply = None)
   \<and> (\<not> is_substr ''reason:'' (lower reply) \<longrightarrow> re_search match_reason reply = None)
   \<and> parse_routing_response ags [] =
        \<lparr>agent = ''conductor'', confidence = 1 / 2, reasoning = ''Default routing''\<rparr>"
proof -
  let ?d = "parse_routing_response ags reply"
  have a: "re_search match_agent reply = None \<longrightarrow> agent ?d = ''conductor''"
    by (simp add: validate_agent_cases parse_agent_line_def validate_agent_def)
  have c1: "re_search match_confidence reply = None \<longrightarrow> confidence ?d = 1 / 2"
    by (simp add: validate_agent_cases parse_confidence_line_def)
  have c2: "\<forall>g. re_search match_confidence reply = Some g \<longrightarrow>
        confidence ?d = (case py_float g of Inr x \<Rightarrow> max 0 (min 1 x) | Inl e \<Rightarrow> 1 / 2)"
    by (simp add: validate_agent_cases parse_confidence_line_def)
  have c3: "0 \<le> confidence ?d" "confidence ?d \<le> 1"
    using parse_confidence_line_range[of reply] by (simp_all add: validate_agent_cases)
  have r: "re_search match_reason reply = None \<longrightarrow>
        reasoning ?d =
          (if parse_agent_line reply \<noteq> ''conductor''
              \<and> parse_agent_line reply \<notin> set (map fst ags)
              \<and> find (fuzzy (parse_agent_line reply)) (map fst ags) = None
           then agent_not_found ''conductor''
           else ''Default routing'')"
    by (auto simp: validate_agent_cases parse_reason_line_def validate_agent_def Let_def
             split: option.splits)
  have e: "parse_routing_response ags [] =
        \<lparr>agent = ''conductor'', confidence = 1 / 2, reasoning = ''Default routing''\<rparr>"
    by (simp add: validate_agent_cases parse_agent_line_def parse_confidence_line_def
          parse_reason_line_def validate_agent_def match_agent_def match_confidence_def
          match_reason_def)
  show ?thesis
    using a c1 c2 c3 r e no_agent_tag[of reply] no_confidence_tag[of reply] no_reason_tag[of reply]
    by blast
qed

theorem parse_routing_response_defaults_witness:
  "re_search match_agent ''CONFIDENCE: 7'' = None
   \<and> agent (parse_routing_response [] ''CONFIDENCE: 7'') = ''conductor''
   \<and> re_search match_confidence ''CONFIDENCE: 7'' = Some ''7''
   \<and> confidence (parse_routing_response [] ''CONFIDENCE: 7'') = 1
   \<and> re_search match_reason ''CONFIDENCE: 7'' = None
   \<and> reasoning (parse_routing_response [] ''CONFIDENCE: 7'') = ''Default routing''
   \<and> re_search match_confidence ''confidence: 1.2.3'' = Some ''1.2.3''
   \<and> confidence (parse_routing_response [] ''confidence: 1.2.3'') = 1 / 2
   \<and> re_search match_confidence ''AGENT: conductor'' = None
   \<and> confidence (parse_routing_response [] ''AGENT: conductor'') = 1 / 2"
proof -
  have h1: "re_search match_agent ''CONFIDENCE: 7'' = None" by code_simp
  have h2: "re_search match_confidence ''CONFIDENCE: 7'' = Some ''7''" by code_simp
  have h3: "re_search match_reason ''CONFIDENCE: 7'' = None" by code_simp
  have h4: "parse_agent_line ''CONFIDENCE: 7'' = ''conductor''"
    unfolding parse_agent_line_def h1 by simp
  have f1: "py_float ''7'' = Inr 7" by code_simp
  have h5: "re_search match_confidence ''confidence: 1.2.3'' = Some ''1.2.3''" by code_simp
  have f2: "py_float ''1.2.3'' = Inl ValueError" by code_simp
  have h6: "re_search match_confidence ''AGENT: conductor'' = None" by code_simp
  note t1 = parse_routing_response_defaults[of "''CONFIDENCE: 7''" "[]"]
  note t2 = parse_routing_response_defaults[of "''confidence: 1.2.3''" "[]"]
  note t3 = parse_routing_response_defaults[of "''AGENT: conductor''" "[]"]
  have "agent (parse_routing_response [] ''CONFIDENCE: 7'') = ''conductor''"
    using t1 h1 by blast
  moreover have "confidence (parse_routing_response [] ''CONFIDENCE: 7'') = 1"
    using t1 h2 f1 by simp
  moreover have "reasoning (parse_routing_response [] ''CONFIDENCE: 7'') = ''Default routing''"
    using t1 h3 h4 by simp
  moreover have "confidence (parse_routing_response [] ''confidence: 1.2.3'') = 1 / 2"
    using t2 h5 f2 by simp
  moreover have "confidence (parse_routing_response [] ''AGENT: conductor'') = 1 / 2"
    using t3 h6 by blast
  ultimately show ?thesis using h1 h2 h3 h5 h6 by blast
qed

text \<open>
  The claim as stated fails: for the reply \<open>AGENT: foo\<close> and an empty catalog the \<open>REASON\<close>
  line is missing and the reasoning is the not-found message, and for the empty reply the
  reasoning is \<open>Default routing\<close>; neither is the string \<open>default routing\<close>.
\<close>

theorem parse_routing_response_reason_counterexample:
  "re_search match_reason ''AGENT: foo'' = None
   \<and> reasoning (parse_routing_response [] ''AGENT: foo'')
       = ''Agent '' @ [apostrophe] @ ''conductor'' @ [apostrophe] @ '' not found, handling directly''
   \<and> reasoning (parse_routing_response [] ''AGENT: foo'') \<noteq> ''default routing''
   \<and> reasoning (parse_routing_response [] []) = ''Default routing''
   \<and> reasoning (parse_routing_response [] []) \<noteq> ''default routing''"
  by code_simp

text \<open>
  C2. When the extracted handler is not \<open>conductor\<close> and is not a key of the catalog, the
  decision's handler is the first catalog key, in enumeration order, that contains the
  extracted handler as a substring or is contained in it; when no key matches, the handler
  is \<open>conductor\<close> and the reasoning is the text \<open>Agent 'conductor' not found, handling directly\<close>
  (the character \<open>CHR 0x27\<close> is the apostrophe). That text names \<open>conductor\<close>, since
  \<open>agent\<close> is reassigned before the message is formatted; it is not the same message with the
  extracted handler in its place. The witness is the catalog of \<open>ethical-hacker\<close> and
  \<open>backend-engineer\<close> with the extracted handler \<open>hacker\<close>.
\<close>

theorem validate_agent_first_fuzzy_match:
  assumes "parse_agent_line reply \<noteq> ''conductor''"
    and "parse_agent_line reply \<notin> set (map fst ags)"
  shows "(\<forall>pre n post.
            map fst ags = pre @ n # post \<and> fuzzy (parse_agent_line reply) n
              \<and> (\<forall>m\<in>set pre. \<not> fuzzy (parse_agent_line reply) m)
            \<longrightarrow> agent (parse_routing_response ags reply) = n)
         \<and> ((\<forall>n\<in>set (map fst ags). \<not> fuzzy (parse_agent_line reply) n)
            \<longrightarrow> agent (parse_routing_response ags reply) = ''conductor''
              \<and> reasoning (parse_routing_response ags reply)
                  = ''Agent '' @ [CHR 0x27] @ ''conductor'' @ [CHR 0x27]
                      @ '' not found, handling directly''
              \<and> reasoning (parse_routing_response ags reply)
                  \<noteq> ''Agent '' @ [CHR 0x27] @ parse_agent_line reply @ [CHR 0x27]
                      @ '' not found, handling directly'')
         \<and> (\<forall>a n. fuzzy a n = ((\<exists>u v. n = u @ a @ v) \<or> (\<exists>u v. a = u @ n @ v)))"
proof (intro conjI allI impI)
  fix pre n post
  assume h: "map fst ags = pre @ n # post \<and> fuzzy (parse_agent_line reply) n
              \<and> (\<forall>m\<in>set pre. \<not> fuzzy (parse_agent_line reply) m)"
  then have "find (fuzzy (parse_agent_line reply)) (map fst ags) = Some n"
    using find_first[of "fuzzy (parse_agent_line reply)" n pre post] by simp
  with assms show "agent (parse_routing_response ags reply) = n"
    by (simp add: validate_agent_cases validate_agent_def)
next
  assume "\<forall>n\<in>set (map fst ags). \<not> fuzzy (parse_agent_line reply) n"
  then have f: "find (fuzzy (parse_agent_line reply)) (map fst ags) = None"
    by (rule find_none)
  with assms show "agent (parse_routing_response ags reply) = ''conductor''"
    by (simp add: validate_agent_cases validate_agent_def Let_def)
  from f assms
  have r: "reasoning (parse_routing_response ags reply) = agent_not_found ''conductor''"
    by (simp add: validate_agent_cases validate_agent_def Let_def)
  then show "reasoning (parse_routing_response ags reply)
                  = ''Agent '' @ [CHR 0x27] @ ''conductor'' @ [CHR 0x27]
                      @ '' not found, handling directly''"
    by (simp add: agent_not_found_def)
  show "reasoning (parse_routing_response ags reply)
                  \<noteq> ''Agent '' @ [CHR 0x27] @ parse_agent_line reply @ [CHR 0x27]
                      @ '' not found, handling directly''"
  proof
    assume "reasoning (parse_routing_response ags reply)
                  = ''Agent '' @ [CHR 0x27] @ parse_agent_line reply @ [CHR 0x27]
                      @ '' not found, handling directly''"
    with r have "''conductor'' @ (CHR 0x27 # '' not found, handling directly'')
        = parse_agent_line reply @ (CHR 0x27 # '' not found, handling directly'')"
      by (simp add: agent_not_found_def)
    then have "''conductor'' = parse_agent_line reply"
      by (simp only: append_same_eq)
    with assms(1) show False by simp
  qed
next
  fix a n
  show "fuzzy a n = ((\<exists>u v. n = u @ a @ v) \<or> (\<exists>u v. a = u @ n @ v))"
    by (simp add: fuzzy_def is_substr_iff)
qed

theorem validate_agent_first_fuzzy_match_witness:
  "parse_agent_line example_reply = ''hacker''
   \<and> map fst (agents example_conductor) = [''ethical-hacker'', ''backend-engineer'']
   \<and> agent (parse_routing_response (agents example_conductor) example_reply) = ''ethical-hacker''
   \<and> parse_agent_line ''AGENT: chef'' = ''chef''
   \<and> agent (parse_routing_response (agents example_conductor) ''AGENT: chef'') = ''conductor''
   \<and> reasoning (parse_routing_response (agents example_conductor) ''AGENT: chef'')
       = ''Agent '' @ [CHR 0x27] @ ''conductor'' @ [CHR 0x27] @ '' not found, handling directly''
   \<and> reasoning (parse_routing_response (agents example_conductor) ''AGENT: chef'')
       \<noteq> ''Agent '' @ [CHR 0x27] @ ''chef'' @ [CHR 0x27] @ '' not found, handling directly''"
proof -
  have k: "map fst (agents example_conductor) = [''ethical-hacker'', ''backend-engineer'']"
    by (simp add: example_agents)
  have p1: "parse_agent_line example_reply = ''hacker''" by code_simp
  have p2: "parse_agent_line ''AGENT: chef'' = ''chef''" by code_simp
  have f1: "fuzzy ''hacker'' ''ethical-hacker''" by code_simp
  have f2: "\<not> fuzzy ''chef'' ''ethical-hacker''" "\<not> fuzzy ''chef'' ''backend-engineer''"
    by code_simp+
  have a1: "parse_agent_line example_reply \<noteq> ''conductor''"
    "parse_agent_line example_reply \<notin> set (map fst (agents example_conductor))"
    by (simp_all add: p1 k)
  have a2: "parse_agent_line ''AGENT: chef'' \<noteq> ''conductor''"
    "parse_agent_line ''AGENT: chef'' \<notin> set (map fst (agents example_conductor))"
    by (simp_all add: p2 k)
  note t1 = validate_agent_first_fuzzy_match[OF a1, THEN conjunct1, rule_format,
      of "[]" "''ethical-hacker''" "[''backend-engineer'']"]
  note t2 = validate_agent_first_fuzzy_match[OF a2, THEN conjunct2, THEN conjunct1, THEN mp]
  have "agent (parse_routing_response (agents example_conductor) example_reply) = ''ethical-hacker''"
  proof (rule t1)
    show "map fst (agents example_conductor) = [] @ ''ethical-hacker'' # [''backend-engineer'']
      \<and> fuzzy (parse_agent_line example_reply) ''ethical-hacker''
      \<and> (\<forall>m\<in>set []. \<not> fuzzy (parse_agent_line example_reply) m)"
      using k f1 by (simp only: p1 append_Nil list.set ball_empty simp_thms)
  qed
  moreover have nomatch:
    "\<forall>n\<in>set (map fst (agents example_conductor)). \<not> fuzzy (parse_agent_line ''AGENT: chef'') n"
    using f2 by (simp only: p2 k list.set ball_simps simp_thms)
  note t3 = t2[OF nomatch, unfolded p2]
  have "agent (parse_routing_response (agents example_conductor) ''AGENT: chef'') = ''conductor''
    \<and> reasoning (parse_routing_response (agents example_conductor) ''AGENT: chef'')
       = ''Agent '' @ [CHR 0x27] @ ''conductor'' @ [CHR 0x27] @ '' not found, handling directly''
    \<and> reasoning (parse_routing_response (agents example_conductor) ''AGENT: chef'')
       \<noteq> ''Agent '' @ [CHR 0x27] @ ''chef'' @ [CHR 0x27] @ '' not found, handling directly''"
    by (rule t3)
  ultimately show ?thesis using k p1 p2 by blast
qed

section \<open>Properties of sessions\<close>

lemma foldl_append2:
  "foldl (\<lambda>acc t. (acc @ [f t]) @ [g t]) acc ts = acc @ concat (map (\<lambda>t. [f t, g t]) ts)"
  by (induction ts arbitrary: acc) simp_all

lemma foldl_append_pairs:
  "foldl (\<lambda>acc (k, v). acc @ [f k v]) acc kvs = acc @ map (\<lambda>kv. f (fst kv) (snd kv)) kvs"
  by (induction kvs arbitrary: acc) (simp_all add: case_prod_beta)

lemma slice_from_neg: "0 < k \<Longrightarrow> slice_from (- int k) xs = spec_last k xs"
  by (simp add: slice_from_def spec_last_def nat_diff_distrib' del: of_nat_diff) 

text \<open>
  C6. The context summary is the newline-joined sequence of four sections in a fixed order:
  the last three turns (user and assistant text cut to 100 characters and followed by an
  ellipsis), the context pairs in insertion order, the preference pairs in insertion order,
  and the mood when it is not \<open>neutral\<close>; a section whose data is empty contributes nothing.
  For a session without turns, context and preferences and with the mood \<open>neutral\<close> the
  summary is the empty string.
\<close>

theorem get_context_summary_sections:
  "get_context_summary lib s = spec_summary lib s
   \<and> (turns s = [] \<and> session_context s = [] \<and> preferences s = []
        \<and> detected_mood s = ''neutral'' \<longrightarrow> get_context_summary lib s = [])"
proof -
  have three: "slice_from (- 3) (turns s) = spec_last 3 (turns s)"
    using slice_from_neg[of 3 "turns s"] by simp
  have eq: "get_context_summary lib s = spec_summary lib s"
    unfolding get_context_summary_def spec_summary_def spec_turn_section_def
      spec_pairs_section_def spec_mood_section_def spec_truncate_def Let_def three
      foldl_append2 foldl_append_pairs
    by simp
  moreover have "turns s = [] \<and> session_context s = [] \<and> preferences s = []
        \<and> detected_mood s = ''neutral'' \<longrightarrow> spec_summary lib s = []"
    by (simp add: spec_summary_def spec_turn_section_def spec_pairs_section_def
          spec_mood_section_def)
  ultimately show ?thesis by simp
qed

text \<open>
  C10. With a positive \<open>max_turns\<close>, \<open>get_chat_history\<close> returns the messages of the last
  \<open>min(max_turns, turn count)\<close> turns, oldest first, one user message and then one assistant
  message for each turn; with \<open>max_turns = 0\<close> it returns the messages of all turns.
\<close>

theorem get_chat_history_window:
  "(0 < max_turns \<longrightarrow>
      get_chat_history s max_turns
        = concat (map spec_turn_messages
                    (spec_last (min (nat max_turns) (length (turns s))) (turns s)))
      \<and> length (spec_last (min (nat max_turns) (length (turns s))) (turns s))
          = min (nat max_turns) (length (turns s)))
   \<and> get_chat_history s 0 = concat (map spec_turn_messages (turns s))"
proof (intro conjI impI)
  assume m: "0 < max_turns"
  then have "slice_from (- max_turns) (turns s) = spec_last (nat max_turns) (turns s)"
    using slice_from_neg[of "nat max_turns" "turns s"] by simp
  also have "\<dots> = spec_last (min (nat max_turns) (length (turns s))) (turns s)"
    by (simp add: spec_last_def min_def)
  finally show "get_chat_history s max_turns
        = concat (map spec_turn_messages
                    (spec_last (min (nat max_turns) (length (turns s))) (turns s)))"
    using m unfolding get_chat_history_def Let_def foldl_append2
    by (simp add: spec_turn_messages_def[abs_def])
  show "length (spec_last (min (nat max_turns) (length (turns s))) (turns s))
          = min (nat max_turns) (length (turns s))"
    by (simp add: spec_last_def)
next
  show "get_chat_history s 0 = concat (map spec_turn_messages (turns s))"
    unfolding get_chat_history_def Let_def foldl_append2
    by (simp add: spec_turn_messages_def[abs_def])
qed


theorem get_context_summary_sections_witness:
  "turns fresh_session = [] \<and> session_context fresh_session = []
   \<and> preferences fresh_session = [] \<and> detected_mood fresh_session = ''neutral''
   \<and> get_context_summary example_lib fresh_session = []
   \<and> get_context_summary example_lib (example_session\<lparr>detected_mood := ''curious''\<rparr>)
      = join [nl]
          [''Recent conversation:'',
           ''  User: one...'', ''  Assistant: first...'',
           ''  User: two...'', ''  Assistant: second...'',
           ''  User: three...'', ''  Assistant: third...'',
           nl # ''Context:'', ''  code_language: Python'', ''  focus_area: security'',
           nl # ''Detected mood: curious'']"
proof -
  have f: "turns fresh_session = [] \<and> session_context fresh_session = []
     \<and> preferences fresh_session = [] \<and> detected_mood fresh_session = ''neutral''"
    by (simp add: fresh_session_def)
  have "get_context_summary example_lib fresh_session = []"
    using get_context_summary_sections[of example_lib fresh_session] f by blast
  moreover have "spec_summary example_lib (example_session\<lparr>detected_mood := ''curious''\<rparr>)
      = join [nl]
          [''Recent conversation:'',
           ''  User: one...'', ''  Assistant: first...'',
           ''  User: two...'', ''  Assistant: second...'',
           ''  User: three...'', ''  Assistant: third...'',
           nl # ''Context:'', ''  code_language: Python'', ''  focus_area: security'',
           nl # ''Detected mood: curious'']"
    by code_simp
  then have "get_context_summary example_lib (example_session\<lparr>detected_mood := ''curious''\<rparr>)
      = join [nl]
          [''Recent conversation:'',
           ''  User: one...'', ''  Assistant: first...'',
           ''  User: two...'', ''  Assistant: second...'',
           ''  User: three...'', ''  Assistant: third...'',
           nl # ''Context:'', ''  code_language: Python'', ''  focus_area: security'',
           nl # ''Detected mood: curious'']"
    using get_context_summary_sections[of example_lib "example_session\<lparr>detected_mood := ''curious''\<rparr>"]
    by (simp only:)
  ultimately show ?thesis using f by blast
qed

theorem get_chat_history_window_witness:
  "(0::int) < 2
   \<and> get_chat_history example_session 2
       = [ChatMessage ''user'' ''two'', ChatMessage ''assistant'' ''second'',
          ChatMessage ''user'' ''three'', ChatMessage ''assistant'' ''third'']
   \<and> get_chat_history example_session 5
       = [ChatMessage ''user'' ''one'', ChatMessage ''assistant'' ''first'',
          ChatMessage ''user'' ''two'', ChatMessage ''assistant'' ''second'',
          ChatMessage ''user'' ''three'', ChatMessage ''assistant'' ''third'']
   \<and> get_chat_history example_session 0 = get_chat_history example_session 5"
proof -
  have p2: "(0::int) < 2" and p5: "(0::int) < 5" by simp_all
  have l2: "concat (map spec_turn_messages
              (spec_last (min (nat 2) (length (turns example_session))) (turns example_session)))
       = [ChatMessage ''user'' ''two'', ChatMessage ''assistant'' ''second'',
          ChatMessage ''user'' ''three'', ChatMessage ''assistant'' ''third'']"
    by code_simp
  have l5: "concat (map spec_turn_messages
              (spec_last (min (nat 5) (length (turns example_session))) (turns example_session)))
       = [ChatMessage ''user'' ''one'', ChatMessage ''assistant'' ''first'',
          ChatMessage ''user'' ''two'', ChatMessage ''assistant'' ''second'',
          ChatMessage ''user'' ''three'', ChatMessage ''assistant'' ''third'']"
    by code_simp
  have l0: "concat (map spec_turn_messages (turns example_session))
       = [ChatMessage ''user'' ''one'', ChatMessage ''assistant'' ''first'',
          ChatMessage ''user'' ''two'', ChatMessage ''assistant'' ''second'',
          ChatMessage ''user'' ''three'', ChatMessage ''assistant'' ''third'']"
    by code_simp
  note t2 = get_chat_history_window[of 2 example_session, THEN conjunct1, THEN mp, OF p2, THEN conjunct1]
  note t5 = get_chat_history_window[of 5 example_session, THEN conjunct1, THEN mp, OF p5, THEN conjunct1]
  note t0 = get_chat_history_window[of 2 example_session, THEN conjunct2]
  show ?thesis
    using p2 t2 t5 t0 by (simp only: l2 l5 l0 simp_thms)
qed

lemma routing_roundtrip:
  "routing_from_dict (turn_to_dict lib t) = Inr (routing t)"
  by (cases "routing t")
     (simp_all add: routing_from_dict_def turn_to_dict_def routing_to_dict_def get_default_def
        getitem_def bind_exn_def as_str_def as_float_def)

lemma turn_roundtrip:
  assumes "fromisoformat lib (isoformat lib (timestamp t)) = Some (timestamp t)"
  shows "turn_from_dict lib (turn_to_dict lib t) = Inr t"
proof -
  have "turn_from_dict lib (turn_to_dict lib t) =
      Inr \<lparr>user_message = user_message t, assistant_response = assistant_response t,
           routing = routing t, tokens_used = tokens_used t, latency_ms = latency_ms t,
           timestamp = timestamp t\<rparr>"
    unfolding turn_from_dict_def routing_roundtrip
    using assms
    by (simp add: turn_to_dict_def get_default_def getitem_def bind_exn_def as_str_def
          as_float_def as_int_def py_fromisoformat_def)
  then show ?thesis by simp
qed

lemma turns_roundtrip:
  "list_all (\<lambda>t. fromisoformat lib (isoformat lib (timestamp t)) = Some (timestamp t)) ts
   \<Longrightarrow> turns_from_dict lib (map (turn_to_dict lib) ts) s = Inr (s\<lparr>turns := turns s @ ts\<rparr>)"
proof (induction ts arbitrary: s)
  case Nil
  then show ?case by simp
next
  case (Cons t ts)
  then show ?case by (simp add: turn_roundtrip bind_exn_def)
qed

lemma from_dict_to_dict:
  assumes "timestamps_roundtrip lib s"
  shows "from_dict lib (to_dict lib s) = Inr s"
proof -
  have c: "fromisoformat lib (isoformat lib (created_at s)) = Some (created_at s)"
    and ts: "list_all (\<lambda>t. fromisoformat lib (isoformat lib (timestamp t)) = Some (timestamp t)) (turns s)"
    using assms by (simp_all add: timestamps_roundtrip_def)
  have "from_dict lib (to_dict lib s) =
      turns_from_dict lib (map (turn_to_dict lib) (turns s))
         \<lparr>session_id = session_id s, created_at = created_at s, turns = [],
          session_context = session_context s, active_surface = active_surface s,
          preferences = preferences s, detected_mood = detected_mood s\<rparr>"
    using c
    by (cases "active_surface s")
       (simp_all add: from_dict_def to_dict_def get_default_def getitem_def bind_exn_def as_str_def
          as_dict_def as_opt_str_def py_iter_def py_fromisoformat_def)
  also have "\<dots> = Inr s"
    using turns_roundtrip[OF ts] by simp
  finally show ?thesis .
qed

text \<open>
  C7. Where \<open>datetime.fromisoformat\<close> inverts \<open>datetime.isoformat\<close> on the timestamps of a
  session, as Python's library documents, \<open>Session.from_dict(session.to_dict())\<close> returns a
  session with the same number of turns, the same total of tokens, and the same context
  and preference dictionaries, for any number of turns.
\<close>

theorem from_dict_to_dict_roundtrip:
  assumes "timestamps_roundtrip lib s"
  shows "\<exists>s'. from_dict lib (to_dict lib s) = Inr s'
           \<and> total_turns s' = total_turns s
           \<and> total_tokens s' = total_tokens s
           \<and> session_context s' = session_context s
           \<and> preferences s' = preferences s"
  using from_dict_to_dict[OF assms] by simp

theorem from_dict_to_dict_roundtrip_witness:
  "timestamps_roundtrip example_lib fresh_session
   \<and> timestamps_roundtrip example_lib example_session
   \<and> (\<exists>s'. from_dict example_lib (to_dict example_lib fresh_session) = Inr s'
           \<and> total_turns s' = 0 \<and> total_tokens s' = 0
           \<and> session_context s' = [] \<and> preferences s' = [])
   \<and> (\<exists>s'. from_dict example_lib (to_dict example_lib example_session) = Inr s'
           \<and> total_turns s' = 3 \<and> total_tokens s' = 400
           \<and> session_context s' = [(''code_language'', PStr ''Python''), (''focus_area'', PStr ''security'')]
           \<and> preferences s' = [])"
proof -
  have h0: "timestamps_roundtrip example_lib fresh_session" by code_simp
  have h3: "timestamps_roundtrip example_lib example_session" by code_simp
  have v0: "total_turns fresh_session = 0" "total_tokens fresh_session = 0"
    "session_context fresh_session = []" "preferences fresh_session = []"
    by (simp_all add: fresh_session_def total_turns_def total_tokens_def)
  have v3: "total_turns example_session = 3" "total_tokens example_session = 400"
    "session_context example_session = [(''code_language'', PStr ''Python''), (''focus_area'', PStr ''security'')]"
    "preferences example_session = []"
    by (simp_all add: example_session_def fresh_session_def example_turn_def total_turns_def
          total_tokens_def)
  show ?thesis
    using h0 h3 from_dict_to_dict_roundtrip[OF h0] from_dict_to_dict_roundtrip[OF h3]
    unfolding v0 v3 by blast
qed

section \<open>Properties of the session manager\<close>

lemma update_fresh_key: "k \<notin> fst ` set al \<Longrightarrow> AList.update k v al = al @ [(k, v)]"
  by (induction al) auto

lemma load_items_keys:
  "load_items lib kvs m = (x, m') \<Longrightarrow>
     fst ` set (sessions m') \<subseteq> fst ` set (sessions m) \<union> fst ` set kvs"
proof (induction kvs arbitrary: m)
  case Nil
  then show ?case by simp
next
  case (Cons kv kvs)
  obtain sid data where kv: "kv = (sid, data)" by (cases kv)
  show ?case
  proof (cases "from_dict lib data")
    case (Inl e)
    with Cons.prems kv show ?thesis by auto
  next
    case (Inr s)
    with Cons.prems kv
    have "load_items lib kvs (m\<lparr>sessions := AList.update sid s (sessions m)\<rparr>) = (x, m')"
      by simp
    from Cons.IH[OF this] show ?thesis
      by (auto simp: kv dom_update)
  qed
qed

lemma load_items_saved:
  assumes "list_all (timestamps_roundtrip lib) (map snd ss)"
    and "distinct (map fst ss)"
    and "fst ` set ss \<inter> fst ` set (sessions m) = {}"
  shows "load_items lib (map (\<lambda>(sid, s). (sid, to_dict lib s)) ss) m
           = (None, m\<lparr>sessions := sessions m @ ss\<rparr>)"
  using assms
proof (induction ss arbitrary: m)
  case Nil
  then show ?case by simp
next
  case (Cons p ss)
  obtain sid s where p: "p = (sid, s)" by (cases p)
  have rt: "from_dict lib (to_dict lib s) = Inr s"
    using Cons.prems(1) p by (simp add: from_dict_to_dict)
  have fresh: "sid \<notin> fst ` set (sessions m)"
    using Cons.prems(3) p by auto
  let ?m = "m\<lparr>sessions := AList.update sid s (sessions m)\<rparr>"
  have upd: "sessions ?m = sessions m @ [(sid, s)]"
    using fresh by (simp add: update_fresh_key)
  have "fst ` set ss \<inter> fst ` set (sessions ?m) = {}"
    using Cons.prems(2,3) p unfolding upd by auto
  moreover have "list_all (timestamps_roundtrip lib) (map snd ss)" "distinct (map fst ss)"
    using Cons.prems(1,2) by simp_all
  ultimately have "load_items lib (map (\<lambda>(sid, s). (sid, to_dict lib s)) ss) ?m
           = (None, ?m\<lparr>sessions := sessions ?m @ ss\<rparr>)"
    by (rule Cons.IH[rotated 2])
  then show ?case
    using rt by (simp add: p upd)
qed

lemma delete_as_filter: "AList.delete k al = filter (\<lambda>kv. fst kv \<noteq> k) al"
  by (induction al) auto

text \<open>
  C9. Deleting a session id that is a key of the store returns \<open>True\<close>; afterwards the id
  has no session, \<open>list_sessions\<close> is the former list without the entry of that id, the
  snapshot that the next \<open>persist\<close> writes has no record under the id, and a manager that
  loads that snapshot has no session under the id; where the keys are distinct and the
  library reads back the timestamps it wrote, that load returns exactly the store as it
  is after the deletion. Deleting an id that is not a key returns \<open>False\<close> and leaves the
  store and the disk as they were.
\<close>

theorem delete_session_result:
  "(sid \<in> set (map fst (sessions m)) \<longrightarrow>
      (\<exists>m' d'. delete_session lib m d sid = (True, m', d')
         \<and> get_session m' sid = None
         \<and> list_sessions m' = map snd (filter (\<lambda>kv. fst kv \<noteq> sid) (sessions m))
         \<and> (\<forall>p. persist_path m = Some p \<longrightarrow>
               (\<exists>kvs. persist lib m' d' p = Some (Json (PDict kvs)) \<and> sid \<notin> set (map fst kvs))
               \<and> (\<forall>m''. SessionManager lib (persist lib m' d') (Some p) = Inr m''
                     \<longrightarrow> get_session m'' sid = None)
               \<and> (distinct (map fst (sessions m))
                    \<and> list_all (timestamps_roundtrip lib) (map snd (sessions m))
                  \<longrightarrow> SessionManager lib (persist lib m' d') (Some p) = Inr m'))))
   \<and> (sid \<notin> set (map fst (sessions m)) \<longrightarrow> delete_session lib m d sid = (False, m, d))"
proof (intro conjI impI)
  assume mem: "sid \<in> set (map fst (sessions m))"
  define m' where "m' = m\<lparr>sessions := AList.delete sid (sessions m)\<rparr>"
  define d' where "d' = (if persist_path m' \<noteq> None then save_sessions lib m' d else d)"
  have del: "delete_session lib m d sid = (True, m', d')"
    using mem by (simp add: delete_session_def m'_def d'_def Let_def)
  have gone: "sid \<notin> fst ` set (sessions m')"
    by (simp add: m'_def delete_notin_dom)
  then have g: "get_session m' sid = None"
    by (simp add: get_session_def map_of_eq_None_iff)
  have l: "list_sessions m' = map snd (filter (\<lambda>kv. fst kv \<noteq> sid) (sessions m))"
    by (simp add: list_sessions_def m'_def delete_as_filter)
  have rest: "\<forall>p. persist_path m = Some p \<longrightarrow>
               (\<exists>kvs. persist lib m' d' p = Some (Json (PDict kvs)) \<and> sid \<notin> set (map fst kvs))
               \<and> (\<forall>m''. SessionManager lib (persist lib m' d') (Some p) = Inr m''
                     \<longrightarrow> get_session m'' sid = None)
               \<and> (distinct (map fst (sessions m))
                    \<and> list_all (timestamps_roundtrip lib) (map snd (sessions m))
                  \<longrightarrow> SessionManager lib (persist lib m' d') (Some p) = Inr m')"
  proof (intro allI impI)
    fix p assume p: "persist_path m = Some p"
    then have p': "persist_path m' = Some p" by (simp add: m'_def)
    let ?data = "map (\<lambda>(sid, s). (sid, to_dict lib s)) (sessions m')"
    let ?disk = "persist lib m' d'"
    have fl: "?disk p = Some (Json (PDict ?data))"
      by (simp add: persist_def save_sessions_def p')
    have keys: "map fst ?data = map fst (sessions m')"
      by (induction "sessions m'") (auto simp: case_prod_beta)
    then have nokey: "sid \<notin> set (map fst ?data)"
      using gone by simp
    let ?m0 = "\<lparr>sessions = [], persist_path = Some p\<rparr>"
    have init: "SessionManager lib ?disk (Some p) =
        (case load_items lib ?data ?m0 of
           (None, m1) \<Rightarrow> Inr m1
         | (Some e, m1) \<Rightarrow> if caught e then Inr m1 else Inl e)"
      by (simp add: SessionManager_def load_sessions_def fl py_items_def Let_def
            split: prod.splits option.splits)
    have absent: "\<forall>m''. SessionManager lib ?disk (Some p) = Inr m'' \<longrightarrow> get_session m'' sid = None"
    proof (intro allI impI)
      fix m'' assume r: "SessionManager lib ?disk (Some p) = Inr m''"
      obtain x m1 where li: "load_items lib ?data ?m0 = (x, m1)"
        by (cases "load_items lib ?data ?m0")
      with r init have "m1 = m''"
        by (cases x) (auto split: if_splits)
      with load_items_keys[OF li] have "fst ` set (sessions m'') \<subseteq> fst ` set ?data"
        by simp
      with nokey have "sid \<notin> fst ` set (sessions m'')" by auto
      then show "get_session m'' sid = None"
        by (simp add: get_session_def map_of_eq_None_iff)
    qed
    have reload: "distinct (map fst (sessions m))
                    \<and> list_all (timestamps_roundtrip lib) (map snd (sessions m))
                  \<longrightarrow> SessionManager lib ?disk (Some p) = Inr m'"
    proof
      assume a: "distinct (map fst (sessions m))
                    \<and> list_all (timestamps_roundtrip lib) (map snd (sessions m))"
      have d1: "distinct (map fst (sessions m'))"
        using a by (simp add: m'_def distinct_delete)
      have r1: "list_all (timestamps_roundtrip lib) (map snd (sessions m'))"
        using a by (simp add: m'_def delete_as_filter list_all_iff)
      have "load_items lib ?data ?m0 = (None, ?m0\<lparr>sessions := sessions ?m0 @ sessions m'\<rparr>)"
        by (rule load_items_saved[OF r1 d1]) simp
      moreover have "?m0\<lparr>sessions := sessions ?m0 @ sessions m'\<rparr> = m'"
        using p' by simp
      ultimately show "SessionManager lib ?disk (Some p) = Inr m'"
        by (simp add: init)
    qed
    from fl nokey absent reload
    show "(\<exists>kvs. ?disk p = Some (Json (PDict kvs)) \<and> sid \<notin> set (map fst kvs))
               \<and> (\<forall>m''. SessionManager lib ?disk (Some p) = Inr m''
                     \<longrightarrow> get_session m'' sid = None)
               \<and> (distinct (map fst (sessions m))
                    \<and> list_all (timestamps_roundtrip lib) (map snd (sessions m))
                  \<longrightarrow> SessionManager lib ?disk (Some p) = Inr m')"
      by blast
  qed
  from del g l rest
  show "\<exists>m' d'. delete_session lib m d sid = (True, m', d')
         \<and> get_session m' sid = None
         \<and> list_sessions m' = map snd (filter (\<lambda>kv. fst kv \<noteq> sid) (sessions m))
         \<and> (\<forall>p. persist_path m = Some p \<longrightarrow>
               (\<exists>kvs. persist lib m' d' p = Some (Json (PDict kvs)) \<and> sid \<notin> set (map fst kvs))
               \<and> (\<forall>m''. SessionManager lib (persist lib m' d') (Some p) = Inr m''
                     \<longrightarrow> get_session m'' sid = None)
               \<and> (distinct (map fst (sessions m))
                    \<and> list_all (timestamps_roundtrip lib) (map snd (sessions m))
                  \<longrightarrow> SessionManager lib (persist lib m' d') (Some p) = Inr m'))"
    by blast
next
  assume "sid \<notin> set (map fst (sessions m))"
  then show "delete_session lib m d sid = (False, m, d)"
    by (simp add: delete_session_def)
qed

theorem delete_session_result_witness:
  "''1a2b3c4d'' \<in> set (map fst (sessions example_manager))
   \<and> persist_path example_manager = Some ''sessions.json''
   \<and> distinct (map fst (sessions example_manager))
   \<and> list_all (timestamps_roundtrip example_lib) (map snd (sessions example_manager))
   \<and> (\<exists>m' d'. delete_session example_lib example_manager empty_disk ''1a2b3c4d'' = (True, m', d')
         \<and> get_session m' ''1a2b3c4d'' = None
         \<and> list_sessions m' = [fresh_session\<lparr>session_id := ''5e6f7a8b''\<rparr>]
         \<and> SessionManager example_lib (persist example_lib m' d') (Some ''sessions.json'') = Inr m')
   \<and> ''0000ffff'' \<notin> set (map fst (sessions example_manager))
   \<and> delete_session example_lib example_manager empty_disk ''0000ffff''
        = (False, example_manager, empty_disk)"
proof -
  have k: "map fst (sessions example_manager) = [''1a2b3c4d'', ''5e6f7a8b'']"
    by (simp add: example_manager_def)
  have h1: "''1a2b3c4d'' \<in> set (map fst (sessions example_manager))"
    unfolding k by simp
  have h2: "persist_path example_manager = Some ''sessions.json''"
    by (simp add: example_manager_def)
  have h3: "distinct (map fst (sessions example_manager))"
    unfolding k by simp
  have h4: "list_all (timestamps_roundtrip example_lib) (map snd (sessions example_manager))"
    by code_simp
  have h5: "''0000ffff'' \<notin> set (map fst (sessions example_manager))"
    unfolding k by simp
  have f: "map snd (filter (\<lambda>kv. fst kv \<noteq> ''1a2b3c4d'') (sessions example_manager))
      = [fresh_session\<lparr>session_id := ''5e6f7a8b''\<rparr>]"
    by (simp add: example_manager_def)
  note t = delete_session_result[of "''1a2b3c4d''" example_manager example_lib empty_disk,
      THEN conjunct1, THEN mp, OF h1]
  then obtain m' d' where
    r: "delete_session example_lib example_manager empty_disk ''1a2b3c4d'' = (True, m', d')"
    and g: "get_session m' ''1a2b3c4d'' = None"
    and l: "list_sessions m' = map snd (filter (\<lambda>kv. fst kv \<noteq> ''1a2b3c4d'') (sessions example_manager))"
    and p: "\<forall>p. persist_path example_manager = Some p \<longrightarrow>
               (\<exists>kvs. persist example_lib m' d' p = Some (Json (PDict kvs))
                   \<and> ''1a2b3c4d'' \<notin> set (map fst kvs))
               \<and> (\<forall>m''. SessionManager example_lib (persist example_lib m' d') (Some p) = Inr m''
                     \<longrightarrow> get_session m'' ''1a2b3c4d'' = None)
               \<and> (distinct (map fst (sessions example_manager))
                    \<and> list_all (timestamps_roundtrip example_lib) (map snd (sessions example_manager))
                  \<longrightarrow> SessionManager example_lib (persist example_lib m' d') (Some p) = Inr m')"
    by blast
  from p h2 h3 h4
  have "SessionManager example_lib (persist example_lib m' d') (Some ''sessions.json'') = Inr m'"
    by blast
  with r g l f have ex: "\<exists>m' d'. delete_session example_lib example_manager empty_disk ''1a2b3c4d'' = (True, m', d')
         \<and> get_session m' ''1a2b3c4d'' = None
         \<and> list_sessions m' = [fresh_session\<lparr>session_id := ''5e6f7a8b''\<rparr>]
         \<and> SessionManager example_lib (persist example_lib m' d') (Some ''sessions.json'') = Inr m'"
    by (intro exI[of _ m'] exI[of _ d']) (simp only: simp_thms)
  note t2 = delete_session_result[of "''0000ffff''" example_manager example_lib empty_disk,
      THEN conjunct2, THEN mp, OF h5]
  from h1 h2 h3 h4 ex h5 t2 show ?thesis by (intro conjI)
qed

text \<open>
  C8. \<open>_load_sessions\<close> catches \<open>JSONDecodeError\<close> and \<open>KeyError\<close> only. A snapshot that is
  valid JSON with a \<open>created_at\<close> that is \<open>null\<close> raises \<open>TypeError\<close> out of the constructor, a
  snapshot that is a JSON list raises \<open>AttributeError\<close>, and one with a \<open>created_at\<close> that
  \<open>fromisoformat\<close> rejects raises \<open>ValueError\<close>. A snapshot whose second record lacks
  \<open>id\<close> is a caught \<open>KeyError\<close>, and the store keeps the first record. A file that is not
  JSON and a missing file both give an empty store.
\<close>

theorem load_sessions_malformed_snapshot:
  "SessionManager example_lib
     (snapshot_disk (Json (PDict [(''1a2b3c4d'', PDict [(''id'', PStr ''1a2b3c4d''), (''created_at'', PNone)])])))
     (Some ''sessions.json'') = Inl TypeError
   \<and> SessionManager example_lib (snapshot_disk (Json (PList []))) (Some ''sessions.json'')
       = Inl AttributeError
   \<and> SessionManager example_lib
       (snapshot_disk (Json (PDict [(''1a2b3c4d'', PDict [(''id'', PStr ''1a2b3c4d''), (''created_at'', PStr ''yesterday'')])])))
       (Some ''sessions.json'') = Inl ValueError
   \<and> SessionManager example_lib
       (snapshot_disk (Json (PDict [(''1a2b3c4d'', to_dict example_lib fresh_session), (''5e6f7a8b'', PDict [])])))
       (Some ''sessions.json'')
       = Inr \<lparr>sessions = [(''1a2b3c4d'', fresh_session)], persist_path = Some ''sessions.json''\<rparr>
   \<and> SessionManager example_lib (snapshot_disk NotJson) (Some ''sessions.json'')
       = Inr \<lparr>sessions = [], persist_path = Some ''sessions.json''\<rparr>
   \<and> SessionManager example_lib empty_disk (Some ''sessions.json'')
       = Inr \<lparr>sessions = [], persist_path = Some ''sessions.json''\<rparr>"
  by code_simp

section \<open>Properties of the conductor\<close>

lemma generate_result:
  "generate be m p t w =
     ((case be (calls w) (Generate m p t) of Some x \<Rightarrow> Inr x | None \<Rightarrow> Inl BackendError),
      w\<lparr>calls := calls w @ [Generate m p t]\<rparr>)"
  by (simp add: generate_def Let_def)

lemma chat_result:
  "chat be m ms t w =
     ((case be (calls w) (Chat m ms t) of Some x \<Rightarrow> Inr x | None \<Rightarrow> Inl BackendError),
      w\<lparr>calls := calls w @ [Chat m ms t]\<rparr>)"
  by (simp add: chat_def Let_def)

lemma route_result:
  "route C be lib q w =
     ((case be (calls w) (routing_call C lib q (the_session w)) of
         Some x \<Rightarrow> Inr (parse_routing_response (agents C) x)
       | None \<Rightarrow> Inl BackendError),
      w\<lparr>route_calls := Suc (route_calls w),
        calls := calls w @ [routing_call C lib q (the_session w)]\<rparr>)"
  by (simp add: route_def generate_result routing_call_def Let_def split: option.splits)

lemma handoff_result:
  "handoff C be lib q a w =
     (if a \<in> set (map fst (agents C))
      then ((case be (calls w) (handoff_call C lib q a (the_session w)) of
               Some x \<Rightarrow> Inr x | None \<Rightarrow> Inl BackendError),
            w\<lparr>calls := calls w @ [handoff_call C lib q a (the_session w)]\<rparr>)
      else (Inr (''Agent '' @ a @ '' not found.''), w))"
proof (cases "map_of (agents C) a")
  case None
  then have "a \<notin> set (map fst (agents C))" by (simp add: map_of_eq_None_iff)
  with None show ?thesis by (simp add: handoff_def)
next
  case (Some p)
  then have "a \<in> set (map fst (agents C))"
    by (metis map_of_eq_None_iff option.distinct(1) set_map)
  with Some show ?thesis
    by (simp add: handoff_def generate_result handoff_call_def Let_def)
qed

lemma present_result:
  "present_specialist_response C be q a sp w =
     ((case be (calls w) (presentation_call C q a sp) of
         Some x \<Rightarrow> Inr x | None \<Rightarrow> Inl BackendError),
      w\<lparr>calls := calls w @ [presentation_call C q a sp]\<rparr>)"
  by (simp add: present_specialist_response_def generate_result presentation_call_def)

lemma respond_directly_result:
  "respond_directly C be q w =
     (let c = Chat (conductor_model (config C))
                (get_chat_history (the_session w) (max_context_turns (config C)) @ [ChatMessage ''user'' q])
                (response_temperature (config C))
      in ((case be (calls w) c of Some x \<Rightarrow> Inr x | None \<Rightarrow> Inl BackendError),
          w\<lparr>calls := calls w @ [c]\<rparr>))"
  by (simp add: respond_directly_def chat_result Let_def)

lemma routing_prompt_opening:
  "take 42 (routing_prompt cat q ctx) = ''You are the routing component of Yollayah.''"
  by (simp add: routing_prompt_def)

lemma handoff_prompt_opening:
  "take 42 (handoff_prompt ctx q a) \<noteq> ''You are the routing component of Yollayah.''"
  by (simp add: handoff_prompt_def)

lemma presentation_prompt_opening:
  "take 42 (presentation_prompt q a sp) \<noteq> ''You are the routing component of Yollayah.''"
  by (simp add: presentation_prompt_def)

lemma is_routing_call_simps:
  "is_routing_call (routing_call C lib q s)"
  "\<not> is_routing_call (handoff_call C lib q a s)"
  "\<not> is_routing_call (presentation_call C q a sp)"
  "\<not> is_routing_call (Chat m ms t)"
  by (simp_all add: is_routing_call_def routing_call_def handoff_call_def presentation_call_def
        routing_prompt_opening handoff_prompt_opening presentation_prompt_opening)

lemma validate_agent_known:
  "fst (validate_agent ags a r) = ''conductor'' \<or> fst (validate_agent ags a r) \<in> set (map fst ags)"
proof (cases "find (fuzzy a) (map fst ags)")
  case None
  then show ?thesis by (simp add: validate_agent_def Let_def)
next
  case (Some n)
  then have "n \<in> set (map fst ags)"
    by (metis find_Some_iff nth_mem)
  with Some show ?thesis by (auto simp: validate_agent_def)
qed

lemma parse_routing_response_known:
  "agent (parse_routing_response ags x) = ''conductor''
   \<or> agent (parse_routing_response ags x) \<in> set (map fst ags)"
  using validate_agent_known[of ags "parse_agent_line x" "parse_reason_line x"]
  by (cases "validate_agent ags (parse_agent_line x) (parse_reason_line x)")
     (auto simp: parse_routing_response_def Let_def)

lemma respond_forced:
  assumes "a \<noteq> []"
  shows "respond C be lib q (Some a) w =
     (let rd = \<lparr>agent = a, confidence = 1, reasoning = ''Agent forced by request''\<rparr>
      in if a = ''conductor''
         then (case respond_directly C be q w of
                 (Inl e, w2) \<Rightarrow> (Inl e, w2)
               | (Inr msg, w2) \<Rightarrow>
                   (Inr \<lparr>message = msg, response_routing = Some rd, response_tokens_used = 0,
                         specialist_response = None\<rparr>, w2))
         else (case handoff C be lib q a w of
                 (Inl e, w2) \<Rightarrow> (Inl e, w2)
               | (Inr sp, w2) \<Rightarrow>
                   (case present_specialist_response C be q a sp w2 of
                      (Inl e, w3) \<Rightarrow> (Inl e, w3)
                    | (Inr msg, w3) \<Rightarrow>
                        (Inr \<lparr>message = msg, response_routing = Some rd,
                              response_tokens_used = 0, specialist_response = Some sp\<rparr>, w3))))"
  using assms by (auto simp: respond_def Let_def split: prod.splits sum.splits)

lemma respond_routed:
  assumes "\<not> forced fa"
  shows "respond C be lib q fa w =
     (case route C be lib q w of
        (Inl e, w1) \<Rightarrow> (Inl e, w1)
      | (Inr rd, w1) \<Rightarrow>
          if agent rd = ''conductor''
          then (case respond_directly C be q w1 of
                  (Inl e, w2) \<Rightarrow> (Inl e, w2)
                | (Inr msg, w2) \<Rightarrow>
                    (Inr \<lparr>message = msg, response_routing = Some rd, response_tokens_used = 0,
                          specialist_response = None\<rparr>, w2))
          else (case handoff C be lib q (agent rd) w1 of
                  (Inl e, w2) \<Rightarrow> (Inl e, w2)
                | (Inr sp, w2) \<Rightarrow>
                    (case present_specialist_response C be q (agent rd) sp w2 of
                       (Inl e, w3) \<Rightarrow> (Inl e, w3)
                     | (Inr msg, w3) \<Rightarrow>
                         (Inr \<lparr>message = msg, response_routing = Some rd,
                               response_tokens_used = 0, specialist_response = Some sp\<rparr>, w3))))"
proof -
  have "respond C be lib q fa w = respond C be lib q None w"
    using assms by (cases fa) (simp_all add: forced_def respond_def)
  then show ?thesis
    by (simp add: respond_def split: prod.splits sum.splits)
qed


lemma step_session:
  "the_session (snd (route C be lib q w)) = the_session w"
  "the_session (snd (handoff C be lib q a w)) = the_session w"
  "the_session (snd (respond_directly C be q w)) = the_session w"
  "the_session (snd (present_specialist_response C be q a sp w)) = the_session w"
  by (simp_all add: route_result handoff_result respond_directly_result present_result Let_def)

lemma respond_session: "the_session (snd (respond C be lib q fa w)) = the_session w"
proof (cases "forced fa")
  case True
  then obtain a where fa: "fa = Some a" and a: "a \<noteq> []"
    by (cases fa) (auto simp: forced_def)
  show ?thesis
    unfolding fa respond_forced[OF a]
    by (simp add: Let_def handoff_result present_result respond_directly_result
          split: option.splits)
next
  case False
  show ?thesis
    unfolding respond_routed[OF False]
    by (simp add: Let_def route_result handoff_result present_result respond_directly_result
          split: option.splits)
qed

text \<open>
  C5. \<open>respond\<close> and its steps \<open>route\<close>, \<open>handoff\<close>, \<open>_respond_directly\<close> and
  \<open>_present_specialist_response\<close> leave the session as it was, for every query, session
  and forced handler and whatever the backend answers, also when it fails: turns, context,
  preferences, mood and active surface are those of before the call.
\<close>

theorem respond_leaves_session_unchanged:
  "the_session (snd (respond C be lib q fa w)) = the_session w
   \<and> the_session (snd (route C be lib q w)) = the_session w
   \<and> the_session (snd (handoff C be lib q a w)) = the_session w
   \<and> the_session (snd (respond_directly C be q w)) = the_session w
   \<and> the_session (snd (present_specialist_response C be q a sp w)) = the_session w"
  by (simp add: respond_session step_session)

text \<open>
  C3 (as amended). With a forced handler that is not the empty string, \<open>respond\<close> does not
  enter \<open>route\<close> (the counter of entries is unchanged), none of the backend calls it adds
  is a routing completion, and the decision of a response it returns has the forced
  handler, confidence 1.0 and the reasoning \<open>Agent forced by request\<close>. The last three
  conjuncts show what the counter and the test on calls observe: every call of \<open>route\<close>
  increases the counter and adds one routing completion.
\<close>

theorem respond_forced_skips_route:
  assumes "forced fa"
  shows "route_calls (snd (respond C be lib q fa w)) = route_calls w
     \<and> take (length (calls w)) (calls (snd (respond C be lib q fa w))) = calls w
     \<and> list_all (\<lambda>c. \<not> is_routing_call c)
          (drop (length (calls w)) (calls (snd (respond C be lib q fa w))))
     \<and> (\<forall>x. fst (respond C be lib q fa w) = Inr x \<longrightarrow>
          (\<exists>a. fa = Some a
             \<and> response_routing x
                 = Some \<lparr>agent = a, confidence = 1, reasoning = ''Agent forced by request''\<rparr>))
     \<and> route_calls (snd (route C be lib q w)) = Suc (route_calls w)
     \<and> calls (snd (route C be lib q w)) = calls w @ [routing_call C lib q (the_session w)]
     \<and> is_routing_call (routing_call C lib q (the_session w))"
proof -
  from assms obtain a where fa: "fa = Some a" and a: "a \<noteq> []"
    by (cases fa) (auto simp: forced_def)
  have 1: "route_calls (snd (respond C be lib q fa w)) = route_calls w"
    unfolding fa respond_forced[OF a]
    by (simp add: Let_def handoff_result present_result respond_directly_result
          split: option.splits)
  have 2: "take (length (calls w)) (calls (snd (respond C be lib q fa w))) = calls w"
    unfolding fa respond_forced[OF a]
    by (simp add: Let_def handoff_result present_result respond_directly_result
          split: option.splits)
  have 3: "list_all (\<lambda>c. \<not> is_routing_call c)
          (drop (length (calls w)) (calls (snd (respond C be lib q fa w))))"
    unfolding fa respond_forced[OF a]
    by (simp add: Let_def handoff_result present_result respond_directly_result
          is_routing_call_simps split: option.splits)
  have 4: "\<forall>x. fst (respond C be lib q fa w) = Inr x \<longrightarrow>
          (\<exists>a. fa = Some a
             \<and> response_routing x
                 = Some \<lparr>agent = a, confidence = 1, reasoning = ''Agent forced by request''\<rparr>)"
    unfolding fa respond_forced[OF a]
    by (auto simp: Let_def handoff_result present_result respond_directly_result
          split: option.splits if_splits)
  have 5: "route_calls (snd (route C be lib q w)) = Suc (route_calls w)"
    "calls (snd (route C be lib q w)) = calls w @ [routing_call C lib q (the_session w)]"
    by (simp_all add: route_result)
  from 1 2 3 4 5 is_routing_call_simps(1)[of C lib q "the_session w"]
  show ?thesis by (intro conjI)
qed

lemma specialist_steps:
  assumes "(case handoff C be lib q a w1 of
              (Inl e, w2) \<Rightarrow> (Inl e, w2)
            | (Inr sp, w2) \<Rightarrow>
                (case present_specialist_response C be q a sp w2 of
                   (Inl e, w3) \<Rightarrow> (Inl e, w3)
                 | (Inr msg, w3) \<Rightarrow> (Inr (mk msg sp), w3))) = (Inr x, w')"
  shows "\<exists>sp msg.
      x = mk msg sp
      \<and> calls w' =
          calls w1
          @ (if a \<in> set (map fst (agents C)) then [handoff_call C lib q a (the_session w1)] else [])
          @ [presentation_call C q a sp]
      \<and> (a \<in> set (map fst (agents C)) \<longrightarrow>
           be (calls w1) (handoff_call C lib q a (the_session w1)) = Some sp)
      \<and> (a \<notin> set (map fst (agents C)) \<longrightarrow> sp = ''Agent '' @ a @ '' not found.'')
      \<and> be (calls w1
              @ (if a \<in> set (map fst (agents C))
                 then [handoff_call C lib q a (the_session w1)] else []))
            (presentation_call C q a sp) = Some msg"
proof (cases "a \<in> set (map fst (agents C))")
  case True
  let ?H = "handoff_call C lib q a (the_session w1)"
  show ?thesis
  proof (cases "be (calls w1) ?H")
    case None
    with assms True show ?thesis by (simp add: handoff_result)
  next
    case (Some sp)
    let ?P = "presentation_call C q a sp"
    show ?thesis
    proof (cases "be (calls w1 @ [?H]) ?P")
      case None
      with assms True Some show ?thesis by (simp add: handoff_result present_result)
    next
      case msg: (Some msg)
      with assms True Some have "x = mk msg sp" "calls w' = calls w1 @ [?H] @ [?P]"
        by (auto simp: handoff_result present_result)
      with True Some msg show ?thesis by (intro exI[of _ sp] exI[of _ msg]) simp
    qed
  qed
next
  case False
  let ?sp = "''Agent '' @ a @ '' not found.''"
  let ?P = "presentation_call C q a ?sp"
  show ?thesis
  proof (cases "be (calls w1) ?P")
    case None
    with assms False show ?thesis by (simp add: handoff_result present_result)
  next
    case (Some msg)
    with assms False have "x = mk msg ?sp" "calls w' = calls w1 @ [?P]"
      by (auto simp: handoff_result present_result)
    with False Some show ?thesis by (intro exI[of _ ?sp] exI[of _ msg]) simp
  qed
qed

text \<open>
  C4 (as amended). When \<open>respond\<close> returns a response whose handler is not \<open>conductor\<close>, the
  backend calls it made are: the routing completion unless the handler was forced; then the
  handoff completion when the handler is a key of the catalog; then the presentation
  completion, which is the last call. The specialist text retained in the response is the
  answer to the handoff completion, or the not-found text when a forced handler is not in
  the catalog (a routed handler always is), the presentation prompt embeds it, and the
  message is the answer to the presentation completion.
\<close>

theorem respond_specialist_calls:
  assumes "respond C be lib q fa w = (Inr x, w')"
    and "response_routing x = Some rd"
    and "agent rd \<noteq> ''conductor''"
  shows "\<exists>spec.
      specialist_response x = Some spec
      \<and> calls w' =
          calls w
          @ (if forced fa then [] else [routing_call C lib q (the_session w)])
          @ (if agent rd \<in> set (map fst (agents C))
             then [handoff_call C lib q (agent rd) (the_session w)] else [])
          @ [presentation_call C q (agent rd) spec]
      \<and> (agent rd \<in> set (map fst (agents C)) \<longrightarrow>
           be (calls w @ (if forced fa then [] else [routing_call C lib q (the_session w)]))
              (handoff_call C lib q (agent rd) (the_session w)) = Some spec)
      \<and> (agent rd \<notin> set (map fst (agents C)) \<longrightarrow>
           forced fa \<and> spec = ''Agent '' @ agent rd @ '' not found.'')
      \<and> be (calls w
              @ (if forced fa then [] else [routing_call C lib q (the_session w)])
              @ (if agent rd \<in> set (map fst (agents C))
                 then [handoff_call C lib q (agent rd) (the_session w)] else []))
            (presentation_call C q (agent rd) spec) = Some (message x)"
proof (cases "forced fa")
  case True
  then obtain a where fa: "fa = Some a" and a: "a \<noteq> []"
    by (cases fa) (auto simp: forced_def)
  let ?rd = "\<lparr>agent = a, confidence = 1, reasoning = ''Agent forced by request''\<rparr>"
  let ?mk = "\<lambda>msg sp. \<lparr>message = msg, response_routing = Some ?rd, response_tokens_used = 0,
                          specialist_response = Some sp\<rparr>"
  have nc: "a \<noteq> ''conductor''"
  proof
    assume "a = ''conductor''"
    with assms(1) have "response_routing x = Some ?rd"
      unfolding fa respond_forced[OF a]
      by (auto simp: Let_def respond_directly_result split: option.splits)
    with assms(2,3) \<open>a = ''conductor''\<close> show False by auto
  qed
  with assms(1) have "(case handoff C be lib q a w of
              (Inl e, w2) \<Rightarrow> (Inl e, w2)
            | (Inr sp, w2) \<Rightarrow>
                (case present_specialist_response C be q a sp w2 of
                   (Inl e, w3) \<Rightarrow> (Inl e, w3)
                 | (Inr msg, w3) \<Rightarrow> (Inr (?mk msg sp), w3))) = (Inr x, w')"
    unfolding fa respond_forced[OF a] by (simp add: Let_def)
  from specialist_steps[OF this] obtain sp msg where
    st: "x = ?mk msg sp"
      "calls w' = calls w
          @ (if a \<in> set (map fst (agents C)) then [handoff_call C lib q a (the_session w)] else [])
          @ [presentation_call C q a sp]"
      "a \<in> set (map fst (agents C)) \<longrightarrow>
           be (calls w) (handoff_call C lib q a (the_session w)) = Some sp"
      "a \<notin> set (map fst (agents C)) \<longrightarrow> sp = ''Agent '' @ a @ '' not found.''"
      "be (calls w
              @ (if a \<in> set (map fst (agents C))
                 then [handoff_call C lib q a (the_session w)] else []))
            (presentation_call C q a sp) = Some msg"
    by blast
  from st(1) assms(2) have rd: "agent rd = a" by auto
  from st True show ?thesis
    unfolding rd by (intro exI[of _ sp]) simp
next
  case False
  let ?R = "routing_call C lib q (the_session w)"
  let ?w1 = "w\<lparr>route_calls := Suc (route_calls w), calls := calls w @ [?R]\<rparr>"
  obtain reply where reply: "be (calls w) ?R = Some reply"
  proof (cases "be (calls w) ?R")
    case None
    with assms(1) show ?thesis
      unfolding respond_routed[OF False] by (simp add: route_result)
  next
    case (Some reply)
    then show ?thesis by (rule that)
  qed
  let ?rd = "parse_routing_response (agents C) reply"
  let ?mk = "\<lambda>msg sp. \<lparr>message = msg, response_routing = Some ?rd, response_tokens_used = 0,
                          specialist_response = Some sp\<rparr>"
  have rt: "route C be lib q w = (Inr ?rd, ?w1)"
    by (simp add: route_result reply)
  have nc: "agent ?rd \<noteq> ''conductor''"
  proof
    assume c: "agent ?rd = ''conductor''"
    with assms(1) have "response_routing x = Some ?rd"
      unfolding respond_routed[OF False] rt
      by (auto simp: Let_def respond_directly_result split: option.splits)
    with assms(2,3) c show False by auto
  qed
  then have known: "agent ?rd \<in> set (map fst (agents C))"
    using parse_routing_response_known[of "agents C" reply] by simp
  from nc assms(1) have "(case handoff C be lib q (agent ?rd) ?w1 of
              (Inl e, w2) \<Rightarrow> (Inl e, w2)
            | (Inr sp, w2) \<Rightarrow>
                (case present_specialist_response C be q (agent ?rd) sp w2 of
                   (Inl e, w3) \<Rightarrow> (Inl e, w3)
                 | (Inr msg, w3) \<Rightarrow> (Inr (?mk msg sp), w3))) = (Inr x, w')"
    unfolding respond_routed[OF False] rt by simp
  from specialist_steps[OF this] known obtain sp msg where
    st: "x = ?mk msg sp"
      "calls w' = calls ?w1 @ [handoff_call C lib q (agent ?rd) (the_session ?w1)]
          @ [presentation_call C q (agent ?rd) sp]"
      "be (calls ?w1) (handoff_call C lib q (agent ?rd) (the_session ?w1)) = Some sp"
      "be (calls ?w1 @ [handoff_call C lib q (agent ?rd) (the_session ?w1)])
            (presentation_call C q (agent ?rd) sp) = Some msg"
    by auto
  from st(1) assms(2) have rd: "rd = ?rd" by auto
  from st known False show ?thesis
    unfolding rd by (intro exI[of _ sp]) simp
qed

theorem respond_leaves_session_unchanged_witness:
  "the_session (snd (respond example_conductor example_backend example_lib example_query None
                       example_world)) = example_session
   \<and> the_session (snd (respond example_conductor example_backend example_lib example_query
                         (Some ''ethical-hacker'') example_world)) = example_session"
  using respond_leaves_session_unchanged[of example_conductor example_backend example_lib
          example_query None example_world]
    respond_leaves_session_unchanged[of example_conductor example_backend example_lib
          example_query "Some ''ethical-hacker''" example_world]
  by (simp add: example_world_def)

theorem respond_forced_skips_route_witness:
  "forced (Some ''ethical-hacker'')
   \<and> route_calls (snd (respond example_conductor example_backend example_lib example_query
                         (Some ''ethical-hacker'') example_world)) = 0
   \<and> list_all (\<lambda>c. \<not> is_routing_call c)
        (calls (snd (respond example_conductor example_backend example_lib example_query
                       (Some ''ethical-hacker'') example_world)))
   \<and> (\<exists>x. fst (respond example_conductor example_backend example_lib example_query
                   (Some ''ethical-hacker'') example_world) = Inr x
          \<and> response_routing x
              = Some \<lparr>agent = ''ethical-hacker'', confidence = 1,
                      reasoning = ''Agent forced by request''\<rparr>)"
proof -
  let ?r = "respond example_conductor example_backend example_lib example_query
              (Some ''ethical-hacker'') example_world"
  have h: "forced (Some ''ethical-hacker'')" by (simp add: forced_def)
  have w: "route_calls example_world = 0" "calls example_world = []"
    by (simp_all add: example_world_def)
  have e: "fst ?r = Inr \<lparr>message = ''presented by yollayah'',
                         response_routing = Some \<lparr>agent = ''ethical-hacker'', confidence = 1,
                                                   reasoning = ''Agent forced by request''\<rparr>,
                         response_tokens_used = 0,
                         specialist_response = Some ''raw specialist text''\<rparr>"
    by code_simp
  note t = respond_forced_skips_route[OF h, of example_conductor example_backend example_lib
      example_query example_world]
  from t have "route_calls (snd ?r) = 0" by (simp only: w)
  moreover from t have "list_all (\<lambda>c. \<not> is_routing_call c) (calls (snd ?r))"
    by (simp only: w list.size drop_0)
  moreover from e have "\<exists>x. fst ?r = Inr x
          \<and> response_routing x
              = Some \<lparr>agent = ''ethical-hacker'', confidence = 1,
                      reasoning = ''Agent forced by request''\<rparr>"
    by simp
  ultimately show ?thesis using h by (intro conjI)
qed

text \<open>
  The claim as stated fails: the reasoning of a forced decision is not the string \<open>forced\<close>,
  and an empty forced handler is falsy, so \<open>route\<close> is entered.
\<close>

theorem respond_forced_reasoning_counterexample:
  "(case fst (respond example_conductor example_backend example_lib example_query
                (Some ''ethical-hacker'') example_world) of
      Inr x \<Rightarrow> map_option reasoning (response_routing x)
    | Inl e \<Rightarrow> None) = Some ''Agent forced by request''
   \<and> ''Agent forced by request'' \<noteq> ''forced''
   \<and> route_calls (snd (respond example_conductor example_backend example_lib example_query
                         (Some []) example_world)) = Suc (route_calls example_world)"
  by code_simp

theorem respond_specialist_calls_witness:
  "(\<exists>x w'. respond example_conductor example_backend example_lib example_query
              (Some ''ethical-hacker'') example_world = (Inr x, w')
       \<and> map_option agent (response_routing x) = Some ''ethical-hacker''
       \<and> specialist_response x = Some ''raw specialist text''
       \<and> message x = ''presented by yollayah''
       \<and> calls w' =
           [handoff_call example_conductor example_lib example_query ''ethical-hacker'' example_session,
            presentation_call example_conductor example_query ''ethical-hacker'' ''raw specialist text''])
   \<and> (\<exists>x w'. respond example_conductor example_backend example_lib example_query None
                example_world = (Inr x, w')
       \<and> map_option agent (response_routing x) = Some ''ethical-hacker''
       \<and> specialist_response x = Some ''raw specialist text''
       \<and> message x = ''presented by yollayah''
       \<and> calls w' =
           [routing_call example_conductor example_lib example_query example_session,
            handoff_call example_conductor example_lib example_query ''ethical-hacker'' example_session,
            presentation_call example_conductor example_query ''ethical-hacker'' ''raw specialist text''])"
proof -
  let ?f = "respond example_conductor example_backend example_lib example_query
              (Some ''ethical-hacker'') example_world"
  let ?n = "respond example_conductor example_backend example_lib example_query None example_world"
  let ?rdf = "\<lparr>agent = ''ethical-hacker'', confidence = 1, reasoning = ''Agent forced by request''\<rparr>"
  let ?rdn = "\<lparr>agent = ''ethical-hacker'', confidence = 23 / 25,
               reasoning = ''Query about security review''\<rparr>"
  let ?xf = "\<lparr>message = ''presented by yollayah'', response_routing = Some ?rdf,
              response_tokens_used = 0, specialist_response = Some ''raw specialist text''\<rparr>"
  let ?xn = "\<lparr>message = ''presented by yollayah'', response_routing = Some ?rdn,
              response_tokens_used = 0, specialist_response = Some ''raw specialist text''\<rparr>"
  have w: "calls example_world = []" "the_session example_world = example_session"
    by (simp_all add: example_world_def)
  have k: "''ethical-hacker'' \<in> set (map fst (agents example_conductor))"
    by (simp add: example_agents)
  have fo: "forced (Some ''ethical-hacker'')" "\<not> forced None"
    by (simp_all add: forced_def)
  have ef: "fst ?f = Inr ?xf" by code_simp
  have en: "fst ?n = Inr ?xn" by code_simp
  have pf: "?f = (Inr ?xf, snd ?f)" using ef by (simp add: prod_eq_iff)
  have pn: "?n = (Inr ?xn, snd ?n)" using en by (simp add: prod_eq_iff)
  have "calls (snd ?f) =
           [handoff_call example_conductor example_lib example_query ''ethical-hacker'' example_session,
            presentation_call example_conductor example_query ''ethical-hacker'' ''raw specialist text'']"
    using respond_specialist_calls[OF pf, of ?rdf] k fo w by simp
  with pf have "\<exists>x w'. ?f = (Inr x, w')
       \<and> map_option agent (response_routing x) = Some ''ethical-hacker''
       \<and> specialist_response x = Some ''raw specialist text''
       \<and> message x = ''presented by yollayah''
       \<and> calls w' =
           [handoff_call example_conductor example_lib example_query ''ethical-hacker'' example_session,
            presentation_call example_conductor example_query ''ethical-hacker'' ''raw specialist text'']"
    by (intro exI[of _ ?xf] exI[of _ "snd ?f"]) simp
  moreover have "calls (snd ?n) =
           [routing_call example_conductor example_lib example_query example_session,
            handoff_call example_conductor example_lib example_query ''ethical-hacker'' example_session,
            presentation_call example_conductor example_query ''ethical-hacker'' ''raw specialist text'']"
    using respond_specialist_calls[OF pn, of ?rdn] k fo w by simp
  with pn have "\<exists>x w'. ?n = (Inr x, w')
       \<and> map_option agent (response_routing x) = Some ''ethical-hacker''
       \<and> specialist_response x = Some ''raw specialist text''
       \<and> message x = ''presented by yollayah''
       \<and> calls w' =
           [routing_call example_conductor example_lib example_query example_session,
            handoff_call example_conductor example_lib example_query ''ethical-hacker'' example_session,
            presentation_call example_conductor example_query ''ethical-hacker'' ''raw specialist text'']"
    by (intro exI[of _ ?xn] exI[of _ "snd ?n"]) simp
  ultimately show ?thesis by (intro conjI)
qed

text \<open>
  The claim as stated fails: with the forced handler \<open>ghost\<close>, which is not in the catalog,
  \<open>handoff\<close> returns without a backend call and one call is made in all; with a handler
  resolved by routing, three calls are made.
\<close>

theorem respond_two_calls_counterexample:
  "fst (respond example_conductor example_backend example_lib example_query (Some ''ghost'')
          example_world)
     = Inr \<lparr>message = ''presented by yollayah'',
            response_routing = Some \<lparr>agent = ''ghost'', confidence = 1,
                                      reasoning = ''Agent forced by request''\<rparr>,
            response_tokens_used = 0,
            specialist_response = Some ''Agent ghost not found.''\<rparr>
   \<and> ''ghost'' \<noteq> ''conductor''
   \<and> calls example_world = []
   \<and> length (calls (snd (respond example_conductor example_backend example_lib example_query
                            (Some ''ghost'') example_world))) = 1
   \<and> map_option agent
        (case fst (respond example_conductor example_backend example_lib example_query None
                     example_world) of
           Inr x \<Rightarrow> response_routing x | Inl e \<Rightarrow> None) = Some ''ethical-hacker''
   \<and> length (calls (snd (respond example_conductor example_backend example_lib example_query
                            None example_world))) = 3"
  by code_simp

end
